theory Spec2Isabelle
  imports Main "HOL-Library.Char_ord" "HOL-Library.List_Lexorder"
begin

section \<open>Python values, errors and SQL composables\<close>

text \<open>
  The values that flow through \<^verbatim>\<open>lmfdb/db_backend.py\<close>: \<^verbatim>\<open>None\<close>, booleans, unbounded
  integers, strings, lists and dictionaries. A dictionary is the list of its items in
  the order in which \<^verbatim>\<open>iteritems()\<close> yields them.
\<close>

datatype pyval =
    PNone
  | PBool bool
  | PInt int
  | PStr string
  | PList "pyval list"
  | PDict "(string \<times> pyval) list"

type_synonym pydict = "(string \<times> pyval) list"

datatype error =
    ValueError string
  | RuntimeError string
  | KeyError string
  | TypeError
  | AttributeError
  | IndexError
  | IOError
  | ZeroDivisionError
  | DatabaseError

text \<open>Truthiness, as \<^verbatim>\<open>bool(v)\<close> and \<^verbatim>\<open>if v:\<close> compute it.\<close>

fun py_truth :: "pyval \<Rightarrow> bool" where
  "py_truth PNone = False"
| "py_truth (PBool b) = b"
| "py_truth (PInt i) = (i \<noteq> 0)"
| "py_truth (PStr s) = (s \<noteq> [])"
| "py_truth (PList xs) = (xs \<noteq> [])"
| "py_truth (PDict d) = (d \<noteq> [])"

text \<open>\<^verbatim>\<open>sep.join(xs)\<close> on strings.\<close>

fun join_str :: "string \<Rightarrow> string list \<Rightarrow> string" where
  "join_str sep [] = []"
| "join_str sep [x] = x"
| "join_str sep (x # y # ys) = x @ sep @ join_str sep (y # ys)"

text \<open>Dictionary primitives: \<^verbatim>\<open>k in D\<close>, \<^verbatim>\<open>D.pop(k, None)\<close>, \<^verbatim>\<open>D[k] = v\<close>.\<close>

definition dict_has :: "string \<Rightarrow> pydict \<Rightarrow> bool" where
  "dict_has k d = (k \<in> set (map fst d))"

definition dict_pop :: "string \<Rightarrow> pydict \<Rightarrow> pydict" where
  "dict_pop k d = filter (\<lambda>kv. fst kv \<noteq> k) d"

fun dict_set :: "string \<Rightarrow> pyval \<Rightarrow> pydict \<Rightarrow> pydict" where
  "dict_set k v [] = [(k, v)]"
| "dict_set k v ((k', v') # d) = (if k' = k then (k, v) # d else (k', v') # dict_set k v d)"

text \<open>
  The composable SQL fragments of \<^verbatim>\<open>psycopg2.sql\<close>. \<^verbatim>\<open>SQL(t).format(a, b)\<close> yields the
  \<^verbatim>\<open>Composed\<close> list of the literal pieces of the template \<^verbatim>\<open>t\<close> and the arguments put
  in place of \<^verbatim>\<open>{0}\<close>, \<^verbatim>\<open>{1}\<close>; \<^verbatim>\<open>SQL(s).join(xs)\<close> interleaves \<^verbatim>\<open>SQL(s)\<close> with \<^verbatim>\<open>xs\<close>.
\<close>

datatype lit = LInt nat | LStr string

datatype sql =
    SQL string
  | Identifier string
  | Literal lit
  | Placeholder
  | Composed "sql list"

fun sql_join :: "string \<Rightarrow> sql list \<Rightarrow> sql list" where
  "sql_join sep [] = []"
| "sql_join sep [x] = [x]"
| "sql_join sep (x # y # ys) = x # SQL sep # sql_join sep (y # ys)"

text \<open>A bound parameter: a plain value, or one wrapped by \<^verbatim>\<open>Json\<close> or \<^verbatim>\<open>Array\<close>.\<close>

datatype param = Val pyval | Json pyval | Array pyval

section \<open>The table object\<close>

text \<open>
  The attributes of a \<^verbatim>\<open>PostgresTable\<close> set by \<^verbatim>\<open>__init__\<close> and \<^verbatim>\<open>_set_sort\<close>, with the
  \<^verbatim>\<open>total\<close> of its \<^verbatim>\<open>PostgresStatsTable\<close>. \<^verbatim>\<open>col_type\<close> holds the type of every column of
  both physical tables (\<^verbatim>\<open>id\<close> included); \<^verbatim>\<open>search_cols\<close> and \<^verbatim>\<open>extra_cols\<close> leave \<^verbatim>\<open>id\<close> out.
\<close>

record table =
  search_table :: string
  extra_table :: "string option"
  label_col :: "string option"
  count_cutoff :: int
  id_ordered :: bool
  out_of_order :: bool
  stats_valid :: bool
  col_type :: "(string \<times> string) list"
  search_cols :: "string list"
  extra_cols :: "string list"
  sort_keys :: "string list"
  primary_sort :: "string option"
  sort_order :: "sql option"
  stats_total :: int

section \<open>Query translation\<close>

text \<open>
  \<^verbatim>\<open>SQL("pre{0}post").format(x)\<close>: the literal pieces that are not empty, around \<^verbatim>\<open>x\<close>.
\<close>

definition fmt :: "string \<Rightarrow> sql \<Rightarrow> string \<Rightarrow> sql" where
  "fmt pre x post =
     Composed ((if pre = [] then [] else [SQL pre]) @ [x] @ (if post = [] then [] else [SQL post]))"

text \<open>Decimal digits of a number, \<^verbatim>\<open>str.isdigit\<close>, \<^verbatim>\<open>int(p)\<close> and \<^verbatim>\<open>key.split('.')\<close>.\<close>

function show_nat :: "nat \<Rightarrow> string" where
  "show_nat n =
     (if n < 10 then [char_of (48 + n)] else show_nat (n div 10) @ [char_of (48 + n mod 10)])"
  by pat_completeness auto
termination
  by (relation "measure id") auto

definition is_digit :: "char \<Rightarrow> bool" where
  "is_digit c = (CHR ''0'' \<le> c \<and> c \<le> CHR ''9'')"

definition isdigit :: "string \<Rightarrow> bool" where
  "isdigit p = (p \<noteq> [] \<and> list_all is_digit p)"

definition int_of_digits :: "string \<Rightarrow> nat" where
  "int_of_digits p = foldl (\<lambda>n c. 10 * n + (of_char c - 48)) 0 p"

fun split_on :: "char \<Rightarrow> string \<Rightarrow> string \<Rightarrow> string list" where
  "split_on sep cur [] = [cur]"
| "split_on sep cur (c # cs) =
     (if c = sep then cur # split_on sep [] cs else split_on sep (cur @ [c]) cs)"

text \<open>
  Rendering, as \<^verbatim>\<open>as_string\<close> does it: an identifier in double quotes (embedded quotes
  doubled), a placeholder as \<^verbatim>\<open>%s\<close>, a literal number in decimal and a literal string
  in single quotes.
\<close>

fun as_string :: "sql \<Rightarrow> string" where
  "as_string (SQL s) = s"
| "as_string (Identifier s) =
     [CHR 0x22] @ concat (map (\<lambda>c. if c = CHR 0x22 then [c, c] else [c]) s) @ [CHR 0x22]"
| "as_string (Literal (LInt n)) = show_nat n"
| "as_string (Literal (LStr s)) =
     [CHR 0x27] @ concat (map (\<lambda>c. if c = CHR 0x27 then [c, c] else [c]) s) @ [CHR 0x27]"
| "as_string Placeholder = ''%s''"
| "as_string (Composed xs) = concat (map as_string xs)"

definition count_char :: "char \<Rightarrow> string \<Rightarrow> nat" where
  "count_char c s = length (filter (\<lambda>x. x = c) s)"

text \<open>
  The \<^verbatim>\<open>col\<close> argument of \<^verbatim>\<open>_parse_special\<close> and the \<^verbatim>\<open>outer\<close> argument of \<^verbatim>\<open>_parse_dict\<close>:
  \<^verbatim>\<open>None\<close>, a column name, or the composable built for a dotted key.
\<close>

datatype colref = NoCol | ColName string | ColPath sql

text \<open>Iterating a value; \<^verbatim>\<open>None\<close> where Python raises \<^verbatim>\<open>TypeError\<close>.\<close>

fun py_iter :: "pyval \<Rightarrow> pyval list option" where
  "py_iter (PList xs) = Some xs"
| "py_iter (PDict d) = Some (map (\<lambda>kv. PStr (fst kv)) d)"
| "py_iter (PStr s) = Some (map (\<lambda>c. PStr [c]) s)"
| "py_iter v = None"

text \<open>
  \<^verbatim>\<open>_parse_dict\<close> applied to a value that is not a dictionary: \<^verbatim>\<open>len(D) == 0\<close> returns
  \<^verbatim>\<open>(None, None)\<close>, otherwise \<^verbatim>\<open>D.iteritems()\<close> fails.
\<close>

definition parse_nondict :: "pyval \<Rightarrow> error + (sql \<times> param list) option" where
  "parse_nondict v =
     (case py_iter v of
        None \<Rightarrow> Inl TypeError
      | Some xs \<Rightarrow> if xs = [] then Inr None else Inl AttributeError)"

text \<open>
  The part of \<^verbatim>\<open>_parse_special\<close> after the \<^verbatim>\<open>$or\<close>/\<^verbatim>\<open>$and\<close> branch. \<^verbatim>\<open>self._col_type[col]\<close>
  raises \<^verbatim>\<open>KeyError\<close> when \<^verbatim>\<open>col\<close> is \<^verbatim>\<open>None\<close> or has no recorded type. The template of
  each comparison is given as the text before and after \<^verbatim>\<open>{0}\<close>.
\<close>

definition special_template :: "string \<Rightarrow> (string \<times> string) option" where
  "special_template key =
     (if key = ''$lte'' then Some ([], '' <= %s'')
      else if key = ''$lt'' then Some ([], '' < %s'')
      else if key = ''$gte'' then Some ([], '' >= %s'')
      else if key = ''$gt'' then Some ([], '' > %s'')
      else if key = ''$ne'' then Some ([], '' != %s'')
      else if key = ''$in'' then Some ([], '' = ANY(%s)'')
      else if key = ''$nin'' then Some (''NOT ('', '' = ANY(%s)'')
      else if key = ''$contains'' then Some ([], '' @> %s'')
      else if key = ''$containedin'' then Some ([], '' <@ %s'')
      else None)"

definition special_leaf :: "table \<Rightarrow> string \<Rightarrow> pyval \<Rightarrow> colref \<Rightarrow> error + (sql \<times> param list) option" where
  "special_leaf t key v col =
     (case (case col of
              ColPath c \<Rightarrow> Inr (True, c)
            | ColName k \<Rightarrow>
                (case map_of (col_type t) k of
                   None \<Rightarrow> Inl (KeyError k)
                 | Some ty \<Rightarrow> Inr (ty = ''jsonb'', Identifier k))
            | NoCol \<Rightarrow> Inl (KeyError ''None'')) of
        Inl err \<Rightarrow> Inl err
      | Inr (force_json, c) \<Rightarrow>
          if key = ''$exists'' then
            Inr (Some (if py_truth v then fmt [] c '' IS NOT NULL'' else fmt [] c '' IS NULL'', []))
          else if key = ''$notcontains'' then
            (case py_iter v of
               None \<Rightarrow> Inl TypeError
             | Some xs \<Rightarrow>
                 Inr (Some (Composed (sql_join '' AND '' (replicate (length xs) (fmt ''NOT '' c '' @> %s''))),
                            map (\<lambda>x. Val (PList [x])) xs)))
          else
            (case special_template key of
               None \<Rightarrow> Inl (ValueError (''Error building query: '' @ key))
             | Some (pre, post) \<Rightarrow>
                 let is_array = (key = ''$in'' \<or> key = ''$nin'') in
                 if force_json \<and> is_array
                 then Inl (ValueError ''$in and $nin operators not supported for jsonb'')
                 else Inr (Some (fmt pre c post,
                                 [if force_json then Json v else if is_array then Array v else Val v]))))"

text \<open>
  The key of a clause that does not start with \<^verbatim>\<open>$\<close>: a dotted key is split into the
  column and a path and forces JSON; a plain key reads its type from \<^verbatim>\<open>_col_type\<close>
  (\<^verbatim>\<open>KeyError\<close> when it has none). Then the column must be \<^verbatim>\<open>id\<close> or a search column. A
  first segment made of digits has become a number, which is no column.
\<close>

definition seg_sql :: "string \<Rightarrow> sql" where
  "seg_sql p = fmt ''->'' (Literal (if isdigit p then LInt (int_of_digits p) else LStr p)) []"

definition resolve_key :: "table \<Rightarrow> string \<Rightarrow> error + (colref \<times> bool)" where
  "resolve_key t key =
     (if CHR ''.'' \<in> set key then
        let segs = split_on CHR ''.'' [] key; k = hd segs; path = map seg_sql (tl segs) in
        if isdigit k
        then Inl (ValueError (show_nat (int_of_digits k) @ '' is not a column of '' @ search_table t))
        else if k \<noteq> ''id'' \<and> k \<notin> set (search_cols t)
        then Inl (ValueError (k @ '' is not a column of '' @ search_table t))
        else Inr (ColPath (Composed [Identifier k, Composed (sql_join [] path)]), True)
      else
        (case map_of (col_type t) key of
           None \<Rightarrow> Inl (KeyError key)
         | Some ty \<Rightarrow>
             if key \<noteq> ''id'' \<and> key \<notin> set (search_cols t)
             then Inl (ValueError (key @ '' is not a column of '' @ search_table t))
             else Inr (ColName key, ty = ''jsonb'')))"

definition starts_dollar :: "string \<Rightarrow> bool" where
  "starts_dollar k = (k \<noteq> [] \<and> hd k = CHR ''$'')"

definition col_sql :: "colref \<Rightarrow> sql" where
  "col_sql c = (case c of ColPath p \<Rightarrow> p | ColName k \<Rightarrow> Identifier k | NoCol \<Rightarrow> Identifier [])"

text \<open>The equality test that ends the loop body of \<^verbatim>\<open>_parse_dict\<close>.\<close>

definition equality_leaf :: "colref \<Rightarrow> bool \<Rightarrow> pyval \<Rightarrow> sql list \<times> param list" where
  "equality_leaf keyref force_json v =
     (if v = PNone then ([fmt [] (col_sql keyref) '' IS NULL''], [])
      else ([fmt [] (col_sql keyref) '' = %s''], [if force_json then Json v else Val v]))"

text \<open>
  \<^verbatim>\<open>_parse_dict\<close> and \<^verbatim>\<open>_parse_special\<close>. \<^verbatim>\<open>parse_items\<close> is the loop over \<^verbatim>\<open>D.iteritems()\<close>,
  \<^verbatim>\<open>parse_clauses\<close> the comprehension over the clauses of \<^verbatim>\<open>$or\<close>/\<^verbatim>\<open>$and\<close> with the pairs
  whose statement is \<^verbatim>\<open>None\<close> dropped. The result \<^verbatim>\<open>(None, None)\<close> is \<^verbatim>\<open>None\<close>. The clauses
  of a value that is not a list are the keys of a dictionary or the characters of a
  string: the empty string gives \<^verbatim>\<open>(None, None)\<close>, any other fails.
\<close>

definition join_pairs :: "string \<Rightarrow> (sql \<times> param list) list \<Rightarrow> (sql \<times> param list) option" where
  "join_pairs key pairs =
     (if pairs \<noteq> []
      then Some (fmt ''('' (Composed (sql_join (if key = ''$or'' then '' OR '' else '' AND '') (map fst pairs))) '')'',
                 concat (map snd pairs))
      else None)"

fun parse_dict :: "table \<Rightarrow> pyval \<Rightarrow> colref \<Rightarrow> error + (sql \<times> param list) option"
  and parse_items :: "table \<Rightarrow> pydict \<Rightarrow> colref \<Rightarrow> error + (sql list \<times> param list)"
  and parse_special :: "table \<Rightarrow> string \<Rightarrow> pyval \<Rightarrow> colref \<Rightarrow> error + (sql \<times> param list) option"
  and parse_clauses :: "table \<Rightarrow> pyval list \<Rightarrow> colref \<Rightarrow> error + (sql \<times> param list) list"
where
  "parse_dict t (PDict d) outer =
     (if d = [] then Inr None
      else (case parse_items t d outer of
              Inl err \<Rightarrow> Inl err
            | Inr (strings, vals) \<Rightarrow>
                if strings \<noteq> [] then Inr (Some (Composed (sql_join '' AND '' strings), vals))
                else Inr None))"
| "parse_dict t PNone outer = parse_nondict PNone"
| "parse_dict t (PBool b) outer = parse_nondict (PBool b)"
| "parse_dict t (PInt i) outer = parse_nondict (PInt i)"
| "parse_dict t (PStr s) outer = parse_nondict (PStr s)"
| "parse_dict t (PList xs) outer = parse_nondict (PList xs)"
| "parse_items t [] outer = Inr ([], [])"
| "parse_items t ((key, v) # rest) outer =
     (case (if key = [] then Inl (ValueError ''Error building query: empty key'')
            else if hd key = CHR ''$'' then
              (case parse_special t key v outer of
                 Inl err \<Rightarrow> Inl err
               | Inr None \<Rightarrow> Inr ([], [])
               | Inr (Some (sub, vals)) \<Rightarrow> Inr ([sub], vals))
            else
              (case resolve_key t key of
                 Inl err \<Rightarrow> Inl err
               | Inr (keyref, force_json) \<Rightarrow>
                   (case v of
                      PDict vd \<Rightarrow>
                        if list_all (\<lambda>kv. starts_dollar (fst kv)) vd then
                          (case parse_dict t (PDict vd) keyref of
                             Inl err \<Rightarrow> Inl err
                           | Inr None \<Rightarrow> Inr ([], [])
                           | Inr (Some (sub, vals)) \<Rightarrow> Inr ([sub], vals))
                        else Inr (equality_leaf keyref force_json v)
                    | _ \<Rightarrow> Inr (equality_leaf keyref force_json v)))) of
        Inl err \<Rightarrow> Inl err
      | Inr (strings, vals) \<Rightarrow>
          (case parse_items t rest outer of
             Inl err \<Rightarrow> Inl err
           | Inr (strings', vals') \<Rightarrow> Inr (strings @ strings', vals @ vals')))"
| "parse_special t key v col =
     (if key = ''$or'' \<or> key = ''$and'' then
        (case v of
           PList clauses \<Rightarrow>
             (case parse_clauses t clauses col of
                Inl err \<Rightarrow> Inl err
              | Inr pairs \<Rightarrow> Inr (join_pairs key pairs))
         | _ \<Rightarrow>
             (case py_iter v of
                None \<Rightarrow> Inl TypeError
              | Some xs \<Rightarrow> if list_all (\<lambda>x. x = PStr []) xs then Inr None else Inl AttributeError))
      else special_leaf t key v col)"
| "parse_clauses t [] col = Inr []"
| "parse_clauses t (clause # clauses) col =
     (case parse_dict t clause col of
        Inl err \<Rightarrow> Inl err
      | Inr r \<Rightarrow>
          (case parse_clauses t clauses col of
             Inl err \<Rightarrow> Inl err
           | Inr pairs \<Rightarrow> Inr ((case r of None \<Rightarrow> [] | Some p \<Rightarrow> [p]) @ pairs)))"

text \<open>
  A clause of a plain multi-column equality query: a key that names \<^verbatim>\<open>id\<close> or a search
  column of a type other than \<^verbatim>\<open>jsonb\<close>, without \<^verbatim>\<open>$\<close> or dot, bound to a value that is
  neither \<^verbatim>\<open>None\<close> nor a dictionary; and the test \<^verbatim>\<open>"col" = %s\<close> it compiles to.
\<close>

definition plain_equality :: "table \<Rightarrow> string \<times> pyval \<Rightarrow> bool" where
  "plain_equality t kv =
     (fst kv \<noteq> [] \<and> hd (fst kv) \<noteq> CHR ''$'' \<and> CHR ''.'' \<notin> set (fst kv)
      \<and> (fst kv = ''id'' \<or> fst kv \<in> set (search_cols t))
      \<and> (case map_of (col_type t) (fst kv) of None \<Rightarrow> False | Some ty \<Rightarrow> ty \<noteq> ''jsonb'')
      \<and> (case snd kv of PNone \<Rightarrow> False | PDict d \<Rightarrow> False | _ \<Rightarrow> True))"

definition equality_test :: "string \<times> pyval \<Rightarrow> sql" where
  "equality_test kv = Composed [Identifier (fst kv), SQL '' = %s'']"

section \<open>Projections\<close>

text \<open>
  The argument of \<^verbatim>\<open>_parse_projection\<close>: one of the codes \<^verbatim>\<open>0\<close>, \<^verbatim>\<open>1\<close>, \<^verbatim>\<open>1.1\<close>, \<^verbatim>\<open>2\<close>, a
  dictionary, a list of column names, or a single column name.
\<close>

datatype projection =
    Proj0
  | Proj1
  | Proj1_1
  | Proj2
  | ProjDict pydict
  | ProjList "string list"
  | ProjStr string

text \<open>
  The two loops of the dictionary branch. The first runs over the search columns and
  tests \<^verbatim>\<open>col in projection\<close>; the second runs over the extras columns and tests
  \<^verbatim>\<open>col in projvals\<close>, where \<^verbatim>\<open>projvals\<close> is what is left of the set of booleans after
  \<^verbatim>\<open>projvals.pop()\<close>. Both pop the column from the dictionary.
\<close>

fun proj_search_loop :: "bool \<Rightarrow> string list \<Rightarrow> pydict \<Rightarrow> string list \<Rightarrow> string list \<times> pydict" where
  "proj_search_loop including [] d acc = (acc, d)"
| "proj_search_loop including (col # cols) d acc =
     proj_search_loop including cols (dict_pop col d)
       (if dict_has col d = including then acc @ [col] else acc)"

fun proj_extra_loop :: "bool \<Rightarrow> pyval list \<Rightarrow> string list \<Rightarrow> pydict \<Rightarrow> string list \<Rightarrow> string list \<times> pydict" where
  "proj_extra_loop including projvals [] d acc = (acc, d)"
| "proj_extra_loop including projvals (col # cols) d acc =
     proj_extra_loop including projvals cols (dict_pop col d)
       (if (PStr col \<in> set projvals) = including then acc @ [col] else acc)"

text \<open>The loop of the list branch: each name is a search column, an extras column or \<^verbatim>\<open>id\<close>.\<close>

fun proj_list_loop :: "table \<Rightarrow> string list \<Rightarrow> string list \<Rightarrow> string list \<Rightarrow> bool
    \<Rightarrow> error + (string list \<times> string list \<times> bool)" where
  "proj_list_loop t [] s e inc = Inr (s, e, inc)"
| "proj_list_loop t (col # cols) s e inc =
     (if col \<in> set (search_cols t) then proj_list_loop t cols (s @ [col]) e inc
      else if col \<in> set (extra_cols t) then proj_list_loop t cols s (e @ [col]) inc
      else if col = ''id'' then proj_list_loop t cols s e True
      else Inl (ValueError (col @ '' not column of table'')))"

text \<open>The common end of the dictionary and list branches.\<close>

definition proj_finish :: "string list \<Rightarrow> string list \<Rightarrow> bool \<Rightarrow> string list \<times> string list \<times> nat" where
  "proj_finish s e include_id =
     ((if include_id \<or> e \<noteq> [] then ''id'' # s else s), e,
      (if include_id \<or> e = [] then 0 else 1))"

definition parse_projection :: "table \<Rightarrow> projection \<Rightarrow> error + (string list \<times> string list \<times> nat)" where
  "parse_projection t projection =
     (case projection of
        Proj0 \<Rightarrow>
          if ''label'' \<notin> set (search_cols t)
          then Inl (RuntimeError (''label not column of '' @ search_table t))
          else Inr ([''label''], [], 0)
      | Proj1 \<Rightarrow> Inr (search_cols t, [], 0)
      | Proj1_1 \<Rightarrow> Inr (''id'' # search_cols t, [], 0)
      | Proj2 \<Rightarrow>
          if extra_table t = None then Inr (search_cols t, [], 0)
          else Inr (''id'' # search_cols t, extra_cols t, 1)
      | ProjDict d \<Rightarrow>
          if d = [] then Inl (ValueError ''You must specify at least one key.'')
          else
            let projvals = remdups (map (\<lambda>kv. PBool (py_truth (snd kv))) d) in
            if length projvals > 1 then Inl (ValueError ''You cannot both include and exclude.'')
            else
              let including = (hd projvals = PBool True);
                  projvals = tl projvals;
                  include_id = (case map_of d ''id'' of None \<Rightarrow> False | Some v \<Rightarrow> py_truth v);
                  d = dict_pop ''id'' d;
                  (s, d) = proj_search_loop including (search_cols t) d [];
                  (e, d) = (if extra_table t \<noteq> None
                            then proj_extra_loop including projvals (extra_cols t) d []
                            else ([], d))
              in if d \<noteq> []
                 then Inl (ValueError (join_str '', '' (map fst d) @ '' not column of '' @ search_table t))
                 else Inr (proj_finish s e include_id)
      | ProjList cols \<Rightarrow>
          if cols = [] then Inl (ValueError ''You must specify at least one key.'')
          else (case proj_list_loop t cols [] [] False of
                  Inl err \<Rightarrow> Inl err
                | Inr (s, e, inc) \<Rightarrow> Inr (proj_finish s e inc))
      | ProjStr col \<Rightarrow>
          if col = [] then Inl (ValueError ''You must specify at least one key.'')
          else (case proj_list_loop t [col] [] [] False of
                  Inl err \<Rightarrow> Inl err
                | Inr (s, e, inc) \<Rightarrow> Inr (proj_finish s e inc)))"

section \<open>The connection and the database engine\<close>

text \<open>
  What the code hands to the driver: \<^verbatim>\<open>cur.execute(query, values)\<close> (no values is the
  empty list) or \<^verbatim>\<open>cur.copy_from(file, table, columns, **kwds)\<close>, the file being given
  by its lines. The engine and the driver are not part of the repository: they are a parameter \<open>db\<close> that answers a statement, given
  the statements of the connection that are in effect (committed, or pending in the open
  transaction), with a cursor or with an exception. \<^verbatim>\<open>DatabaseError\<close> stands for the
  driver's \<^verbatim>\<open>DatabaseError\<close> and its subclasses.
\<close>

datatype stmt =
    Execute sql "param list"
  | CopyFrom "string list" string "string list" pydict

record cursor =
  rowcount :: int
  rows :: "pyval list list"

type_synonym engine = "stmt list \<Rightarrow> stmt \<Rightarrow> error + cursor"

text \<open>
  The connection: the statements committed, the statements of the open transaction, and
  the trace of every statement handed to the driver, in order (a rollback does not
  erase the trace). The world is the table object and its connection.
\<close>

record conn =
  committed :: "stmt list"
  pending :: "stmt list"
  issued :: "stmt list"

record world =
  tbl :: table
  cn :: conn

type_synonym 'a action = "world \<Rightarrow> (error + 'a) \<times> world"

definition ret :: "'a \<Rightarrow> 'a action" where
  "ret a w = (Inr a, w)"

definition raise :: "error \<Rightarrow> 'a action" where
  "raise e w = (Inl e, w)"

definition lift :: "error + 'a \<Rightarrow> 'a action" where
  "lift r w = (case r of Inl e \<Rightarrow> (Inl e, w) | Inr a \<Rightarrow> (Inr a, w))"

definition then_do :: "'a action \<Rightarrow> ('a \<Rightarrow> 'b action) \<Rightarrow> 'b action" where
  "then_do m f w = (case m w of (Inl e, w') \<Rightarrow> (Inl e, w') | (Inr a, w') \<Rightarrow> f a w')"

definition commit :: "unit action" where
  "commit w = (Inr (), w\<lparr>cn := (cn w)\<lparr>committed := committed (cn w) @ pending (cn w), pending := []\<rparr>\<rparr>)"

definition rollback :: "unit action" where
  "rollback w = (Inr (), w\<lparr>cn := (cn w)\<lparr>pending := []\<rparr>\<rparr>)"

text \<open>
  The driver call shared by \<^verbatim>\<open>_execute\<close> and \<^verbatim>\<open>copy_from\<close>: the statement enters the trace
  and, when the engine accepts it, the open transaction.
\<close>

definition send :: "engine \<Rightarrow> stmt \<Rightarrow> cursor action" where
  "send db st w =
     (let c = cn w; c1 = c\<lparr>issued := issued c @ [st]\<rparr> in
      case db (committed c @ pending c) st of
        Inl err \<Rightarrow> (Inl err, w\<lparr>cn := c1\<rparr>)
      | Inr cur \<Rightarrow> (Inr cur, w\<lparr>cn := c1\<lparr>pending := pending c @ [st]\<rparr>\<rparr>))"

text \<open>
  \<^verbatim>\<open>PostgresBase._execute\<close>: a \<^verbatim>\<open>DatabaseError\<close> rolls the transaction back and is raised
  again; any other exception passes through; on success the transaction is committed
  when \<^verbatim>\<open>commit\<close> is true. Timing and the log of slow queries are left out.
\<close>

definition execute :: "engine \<Rightarrow> sql \<Rightarrow> param list \<Rightarrow> bool \<Rightarrow> cursor action" where
  "execute db query vals do_commit w =
     (case send db (Execute query vals) w of
        (Inl err, w1) \<Rightarrow> if err = DatabaseError then (Inl err, snd (rollback w1)) else (Inl err, w1)
      | (Inr cur, w1) \<Rightarrow> if do_commit then (Inr cur, snd (commit w1)) else (Inr cur, w1))"

text \<open>
  \<^verbatim>\<open>cur.fetchone()[0]\<close>: \<^verbatim>\<open>fetchone()\<close> is \<^verbatim>\<open>None\<close> when there is no row. \<^verbatim>\<open>int(v)\<close> on the values
  a count column holds.
\<close>

definition fetch_first :: "cursor \<Rightarrow> error + pyval" where
  "fetch_first cur =
     (case rows cur of
        [] \<Rightarrow> Inl TypeError
      | r # _ \<Rightarrow> (case r of [] \<Rightarrow> Inl IndexError | v # _ \<Rightarrow> Inr v))"

definition py_int :: "pyval \<Rightarrow> error + int" where
  "py_int v = (case v of PInt i \<Rightarrow> Inr i | PBool b \<Rightarrow> Inr (if b then 1 else 0) | _ \<Rightarrow> Inl TypeError)"

text \<open>Templates with two holes, \<^verbatim>\<open>SQL("pre{0}mid{1}post").format(a, b)\<close>.\<close>

definition fmt2 :: "string \<Rightarrow> sql \<Rightarrow> string \<Rightarrow> sql \<Rightarrow> string \<Rightarrow> sql" where
  "fmt2 pre a mid b post =
     Composed ((if pre = [] then [] else [SQL pre]) @ [a] @ (if mid = [] then [] else [SQL mid])
               @ [b] @ (if post = [] then [] else [SQL post]))"

section \<open>The count cache\<close>

definition counts_table :: "table \<Rightarrow> string" where
  "counts_table t = search_table t @ ''_counts''"

definition stats_table :: "table \<Rightarrow> string" where
  "stats_table t = search_table t @ ''_stats''"

text \<open>
  \<^verbatim>\<open>_split_dict\<close>: the keys and the values of the items sorted (the keys of a dictionary
  are distinct, so the items are sorted by key).
\<close>

definition split_dict :: "pydict \<Rightarrow> pyval \<times> pyval" where
  "split_dict D =
     (let items = sort_key fst D in (PList (map (\<lambda>kv. PStr (fst kv)) items), PList (map snd items)))"

definition quick_count :: "engine \<Rightarrow> pydict \<Rightarrow> int option action" where
  "quick_count db query w =
     (let (cols, vals) = split_dict query;
          selecter = fmt ''SELECT count FROM '' (Identifier (counts_table (tbl w)))
                         '' WHERE cols = %s AND values = %s''
      in then_do (execute db selecter [Val cols, Val vals] True)
           (\<lambda>cur. if rowcount cur \<noteq> 0
                   then then_do (lift (fetch_first cur))
                          (\<lambda>v. then_do (lift (py_int v)) (\<lambda>n. ret (Some n)))
                   else ret None) w)"

definition record_count :: "engine \<Rightarrow> pydict \<Rightarrow> pyval \<Rightarrow> unit action" where
  "record_count db query count w =
     (let (cols, vals) = split_dict query in
      then_do (quick_count db query)
        (\<lambda>qc w1.
           let updater =
                 (if qc = None
                  then fmt ''INSERT INTO '' (Identifier (counts_table (tbl w1)))
                           '' (count, cols, values) VALUES (%s, %s, %s)''
                  else fmt ''UPDATE '' (Identifier (counts_table (tbl w1)))
                           '' SET count = %s WHERE cols = %s AND values = %s'')
           in then_do (execute db updater [Val count, Val cols, Val vals] True) (\<lambda>cur. ret ()) w1) w)"

definition count_select :: "table \<Rightarrow> (sql \<times> param list) option \<Rightarrow> sql \<times> param list" where
  "count_select t r =
     (let selecter = fmt ''SELECT COUNT(*) FROM '' (Identifier (search_table t)) [] in
      case r of
        None \<Rightarrow> (selecter, [])
      | Some (qstr, vals) \<Rightarrow> (fmt2 [] selecter '' WHERE '' qstr [], vals))"

definition slow_count :: "engine \<Rightarrow> pydict \<Rightarrow> bool \<Rightarrow> pyval action" where
  "slow_count db query record w =
     then_do (lift (parse_dict (tbl w) (PDict query) NoCol))
       (\<lambda>r w1.
          let (selecter, vals) = count_select (tbl w1) r in
          then_do (execute db selecter vals True)
            (\<lambda>cur. then_do (lift (fetch_first cur))
               (\<lambda>nres. if record
                        then then_do (record_count db query nres) (\<lambda>u. ret nres)
                        else ret nres)) w1) w"

text \<open>\<^verbatim>\<open>PostgresStatsTable.count\<close>, which \<^verbatim>\<open>PostgresTable.count\<close> returns.\<close>

definition count :: "engine \<Rightarrow> pydict \<Rightarrow> int action" where
  "count db query w =
     (if query = [] then ret (stats_total (tbl w)) w
      else then_do (quick_count db query)
             (\<lambda>qc. case qc of
                      Some n \<Rightarrow> ret n
                    | None \<Rightarrow> then_do (slow_count db query False) (\<lambda>nres. lift (py_int nres))) w)"

text \<open>
  \<^verbatim>\<open>PostgresStatsTable.max\<close>, which \<^verbatim>\<open>PostgresTable.max\<close> returns. For \<^verbatim>\<open>id\<close> it is
  \<^verbatim>\<open>self.count() - 1\<close>. For another column it reads the cached statistic, else selects
  the greatest value (again with \<^verbatim>\<open>NULLS LAST\<close> when that is \<^verbatim>\<open>None\<close>) and tries to store
  it; an exception of that insertion is swallowed.
\<close>

definition max_select :: "table \<Rightarrow> string \<Rightarrow> string \<Rightarrow> sql" where
  "max_select t col tail =
     Composed [SQL ''SELECT '', Identifier col, SQL '' FROM '', Identifier (search_table t),
               SQL '' ORDER BY '', Identifier col, SQL tail]"

definition stats_max :: "engine \<Rightarrow> string \<Rightarrow> pyval action" where
  "stats_max db col w =
     (if col = ''id'' then then_do (count db []) (\<lambda>n. ret (PInt (n - 1))) w
      else if col \<notin> set (search_cols (tbl w))
      then raise (ValueError (col @ '' not a column of '' @ search_table (tbl w))) w
      else
        then_do (execute db
                   (fmt ''SELECT value FROM '' (Identifier (stats_table (tbl w)))
                        '' WHERE stat = %s AND cols = %s AND threshold IS NULL AND constraint_cols IS NULL'')
                   [Val (PStr ''max''), Val (PList [PStr col])] True)
          (\<lambda>cur.
             if rowcount cur \<noteq> 0 then lift (fetch_first cur)
             else
               then_do (\<lambda>w1. execute db (max_select (tbl w1) col '' DESC LIMIT 1'') [] True w1)
                 (\<lambda>cur1. then_do (lift (fetch_first cur1))
                    (\<lambda>m1. then_do
                             (if m1 = PNone
                              then then_do (\<lambda>w2. execute db (max_select (tbl w2) col '' DESC NULLS LAST LIMIT 1'') [] True w2)
                                     (\<lambda>cur2. lift (fetch_first cur2))
                              else ret m1)
                             (\<lambda>m w3.
                                let inserter = fmt ''INSERT INTO '' (Identifier (stats_table (tbl w3)))
                                                   '' (cols, stat, value) VALUES (%s, %s, %s)''
                                in (Inr m, snd (execute db inserter
                                                  [Val (PList [PStr col]), Val (PStr ''max''), Val m] True w3)))))) w)"

section \<open>Reading: building the select, lucky, search, random\<close>

text \<open>
  A sort order passed by the caller: column names (ascending) or pairs of a column and
  a direction \<^verbatim>\<open>1\<close> or \<^verbatim>\<open>-1\<close>. \<^verbatim>\<open>_sort_str\<close> turns it into the \<^verbatim>\<open>ORDER BY\<close> list.
\<close>

datatype sort_item = SortCol string | SortDir string int

definition sort_str :: "sort_item list \<Rightarrow> sql" where
  "sort_str sort_list =
     Composed (sql_join '', ''
       (map (\<lambda>col. case col of
                      SortCol c \<Rightarrow> Identifier c
                    | SortDir c d \<Rightarrow> if d = 1 then Identifier c else fmt [] (Identifier c) '' DESC'')
            sort_list))"

text \<open>
  \<^verbatim>\<open>_build_query\<close>: the \<^verbatim>\<open>WHERE\<close>, \<^verbatim>\<open>ORDER BY\<close>, \<^verbatim>\<open>LIMIT\<close> and \<^verbatim>\<open>OFFSET\<close> parts and their
  parameters. Without a sort argument the table's default order is used when the
  primary sort column is a key of the query or the table is out of order, and \<^verbatim>\<open>id\<close>
  otherwise; a table without default order needs no sort only for a single first row.
\<close>

definition build_query :: "table \<Rightarrow> pydict \<Rightarrow> int option \<Rightarrow> int \<Rightarrow> sort_item list option
    \<Rightarrow> error + (sql \<times> param list)" where
  "build_query t query limit offset sorting =
     (case parse_dict t (PDict query) NoCol of
        Inl err \<Rightarrow> Inl err
      | Inr r \<Rightarrow>
          let (s, vals) = (case r of
                             None \<Rightarrow> (SQL [], [])
                           | Some (qstr, vals) \<Rightarrow> (fmt '' WHERE '' qstr [], vals)) in
          case (case sorting of
                  None \<Rightarrow>
                    (case sort_order t of
                       None \<Rightarrow>
                         if limit \<noteq> None \<and> \<not> (limit = Some 1 \<and> offset = 0)
                         then Inl (ValueError ''You must specify a sort order'')
                         else Inr None
                     | Some so \<Rightarrow>
                         if (case primary_sort t of None \<Rightarrow> False | Some p \<Rightarrow> dict_has p query)
                            \<or> out_of_order t
                         then Inr (Some so)
                         else Inr (Some (Identifier ''id'')))
                | Some sl \<Rightarrow> Inr (if sl \<noteq> [] then Some (sort_str sl) else None)) of
            Inl err \<Rightarrow> Inl err
          | Inr srt \<Rightarrow>
              let s = (case srt of None \<Rightarrow> s | Some so \<Rightarrow> fmt2 [] s '' ORDER BY '' so []) in
              (case limit of
                 None \<Rightarrow> Inr (s, vals)
               | Some l \<Rightarrow>
                   if offset \<noteq> 0
                   then Inr (fmt [] (fmt [] s '' LIMIT %s'') '' OFFSET %s'',
                             vals @ [Val (PInt l)] @ [Val (PInt offset)])
                   else Inr (fmt [] s '' LIMIT %s'', vals @ [Val (PInt l)])))"

text \<open>
  \<^verbatim>\<open>SELECT {0} FROM {1}{2}\<close> over the search table, and the point lookup
  \<^verbatim>\<open>SELECT {0} FROM {1} WHERE id = %s\<close> into the extras table.
\<close>

definition select_stmt :: "table \<Rightarrow> string list \<Rightarrow> sql \<Rightarrow> sql" where
  "select_stmt t cols qstr =
     Composed [SQL ''SELECT '', Composed (sql_join '', '' (map Identifier cols)),
               SQL '' FROM '', Identifier (search_table t), qstr]"

definition extras_stmt :: "string \<Rightarrow> string list \<Rightarrow> sql" where
  "extras_stmt extra cols =
     Composed [SQL ''SELECT '', Composed (sql_join '', '' (map Identifier cols)),
               SQL '' FROM '', Identifier extra, SQL '' WHERE id = %s'']"

text \<open>
  The dictionary \<^verbatim>\<open>{k:v for k,v in zip(cols, rec) if v is not None}\<close>, and the values of
  the extras row added to it.
\<close>

definition add_cols :: "pydict \<Rightarrow> string list \<Rightarrow> pyval list \<Rightarrow> pydict" where
  "add_cols D cols rec =
     foldl (\<lambda>d kv. dict_set (fst kv) (snd kv) d) D (filter (\<lambda>kv. snd kv \<noteq> PNone) (zip cols rec))"

definition is_str :: "projection \<Rightarrow> bool" where
  "is_str p = (case p of ProjStr c \<Rightarrow> True | _ \<Rightarrow> False)"

definition first_col :: "pyval list \<Rightarrow> error + pyval" where
  "first_col rec = (case rec of [] \<Rightarrow> Inl IndexError | v # _ \<Rightarrow> Inr v)"

text \<open>The extras row of a record, fetched by its \<^verbatim>\<open>id\<close> (the first value) and merged in.\<close>

definition with_extras :: "engine \<Rightarrow> pyval list \<Rightarrow> string list \<Rightarrow> pydict \<Rightarrow> pydict action" where
  "with_extras db rec ecols D w =
     (case extra_table (tbl w) of
        None \<Rightarrow> raise TypeError w
      | Some extra \<Rightarrow>
          then_do (lift (first_col rec))
            (\<lambda>rid. then_do (execute db (extras_stmt extra ecols) [Val rid] True)
               (\<lambda>cur. case rows cur of
                         [] \<Rightarrow> raise TypeError
                       | extra_rec # _ \<Rightarrow> ret (add_cols D ecols extra_rec))) w)"

definition project_dict :: "projection \<Rightarrow> pydict \<Rightarrow> pyval action" where
  "project_dict p D =
     (case p of
        ProjStr c \<Rightarrow> (case map_of D c of None \<Rightarrow> raise (KeyError c) | Some v \<Rightarrow> ret v)
      | _ \<Rightarrow> ret (PDict D))"

text \<open>\<^verbatim>\<open>_search_iterator\<close>, consumed to the end: one value per record of the cursor.\<close>

definition yield_row :: "engine \<Rightarrow> pyval list \<Rightarrow> string list \<Rightarrow> string list \<Rightarrow> nat \<Rightarrow> projection
    \<Rightarrow> pyval action" where
  "yield_row db rec scols ecols id_offset p =
     (if p = Proj0 \<or> (is_str p \<and> ecols = []) then lift (first_col rec)
      else
        then_do (if ecols \<noteq> []
                 then with_extras db rec ecols
                        (add_cols [] (drop id_offset scols) (drop id_offset rec))
                 else ret (add_cols [] (drop id_offset scols) (drop id_offset rec)))
          (project_dict p))"

fun search_iterator :: "engine \<Rightarrow> pyval list list \<Rightarrow> string list \<Rightarrow> string list \<Rightarrow> nat \<Rightarrow> projection
    \<Rightarrow> pyval list action" where
  "search_iterator db [] sc ec off p = ret []"
| "search_iterator db (rec # recs) sc ec off p =
     then_do (yield_row db rec sc ec off p)
       (\<lambda>x. then_do (search_iterator db recs sc ec off p) (\<lambda>xs. ret (x # xs)))"

text \<open>\<^verbatim>\<open>lucky\<close>: the first record of the query, \<^verbatim>\<open>None\<close> when there is none.\<close>

definition lucky :: "engine \<Rightarrow> pydict \<Rightarrow> projection \<Rightarrow> int \<Rightarrow> pyval action" where
  "lucky db query p offset w =
     then_do (lift (parse_projection (tbl w) p))
       (\<lambda>(sc, ec, off).
          then_do (lift (build_query (tbl w) query (Some 1) offset None))
            (\<lambda>(qstr, vals).
               then_do (execute db (select_stmt (tbl w) sc qstr) vals True)
                 (\<lambda>cur.
                    if rowcount cur > 0 then
                      (case rows cur of
                         [] \<Rightarrow> raise TypeError
                       | rec # _ \<Rightarrow>
                           if p = Proj0 then lift (first_col rec)
                           else if ec \<noteq> [] then
                             then_do (with_extras db rec ec (add_cols [] (drop off sc) (drop off rec)))
                               (project_dict p)
                           else if is_str p then lift (first_col rec)
                           else ret (PDict (add_cols [] sc rec)))
                    else ret PNone))) w"

text \<open>
  \<^verbatim>\<open>cur.fetchmany(size)\<close>: at most \<^verbatim>\<open>size\<close> rows; the driver takes a negative size as
  all the rows that are left.
\<close>

definition fetchmany :: "cursor \<Rightarrow> int \<Rightarrow> pyval list list" where
  "fetchmany cur n = (if n < 0 then rows cur else take (nat n) (rows cur))"

text \<open>
  \<^verbatim>\<open>search\<close>. The result is the list of values and the \<^verbatim>\<open>info\<close> dictionary as the call
  leaves it (\<^verbatim>\<open>None\<close> when the caller passed none). Without a limit the source returns
  the iterator; the model consumes it at once.
\<close>

definition info_update :: "pydict \<Rightarrow> int \<Rightarrow> int \<Rightarrow> int \<Rightarrow> bool \<Rightarrow> pydict \<Rightarrow> error + pydict" where
  "info_update query nres limit offset exact_count info =
     (if offset \<ge> nres \<and> limit = 0 then Inl ZeroDivisionError
      else
        let offset = (if offset \<ge> nres then offset - (1 + (offset - nres) div limit) * limit else offset);
            offset = (if offset < 0 then 0 else offset)
        in Inr (dict_set ''exact_count'' (PBool exact_count)
                 (dict_set ''start'' (PInt offset)
                   (dict_set ''count'' (PInt limit)
                     (dict_set ''number'' (PInt nres)
                       (dict_set ''query'' (PDict query) info))))))"

definition search :: "engine \<Rightarrow> pydict \<Rightarrow> projection \<Rightarrow> int option \<Rightarrow> int \<Rightarrow> sort_item list option
    \<Rightarrow> pydict option \<Rightarrow> (pyval list \<times> pydict option) action" where
  "search db query p limit offset sorting info w =
     then_do (lift (parse_projection (tbl w) p))
       (\<lambda>(sc, ec, off).
          case limit of
            None \<Rightarrow>
              then_do (lift (build_query (tbl w) query None 0 sorting))
                (\<lambda>(qstr, vals).
                   then_do (execute db (select_stmt (tbl w) sc qstr) vals True)
                     (\<lambda>cur.
                        then_do (case info of
                                   None \<Rightarrow> ret None
                                 | Some i \<Rightarrow> then_do (count db query)
                                              (\<lambda>n. ret (Some (dict_set ''number'' (PInt n) i))))
                          (\<lambda>info'. then_do (search_iterator db (rows cur) sc ec off p)
                                      (\<lambda>res. ret (res, info')))))
          | Some lim \<Rightarrow>
              then_do (quick_count db query)
                (\<lambda>nres.
                   let prelimit = max lim (count_cutoff (tbl w) - offset) in
                   then_do (lift (build_query (tbl w) query
                                    (Some (if nres = None then prelimit else lim)) offset sorting))
                     (\<lambda>(qstr, vals).
                        then_do (execute db (select_stmt (tbl w) sc qstr) vals True)
                          (\<lambda>cur.
                             let exact_count = (case nres of None \<Rightarrow> rowcount cur < prelimit | Some n \<Rightarrow> True);
                                 nres' = (case nres of None \<Rightarrow> offset + rowcount cur | Some n \<Rightarrow> n)
                             in then_do (search_iterator db (fetchmany cur lim) sc ec off p)
                                  (\<lambda>res. case info of
                                            None \<Rightarrow> ret (res, None)
                                          | Some i \<Rightarrow>
                                              then_do (lift (info_update query nres' lim offset exact_count i))
                                                (\<lambda>i'. ret (res, Some i'))))))) w"

text \<open>
  \<^verbatim>\<open>random.randint(a, b)\<close> draws from the inclusive range and raises \<^verbatim>\<open>ValueError\<close> on an
  empty one; \<open>raw\<close> is the random source of the draw. \<^verbatim>\<open>random\<close> tries \<^verbatim>\<open>maxtries = 100\<close>
  ids between 1 and \<^verbatim>\<open>self.max('id')\<close>; \<open>rng i\<close> is the source of the \<open>i\<close>-th draw.
\<close>

definition randint :: "int \<Rightarrow> int \<Rightarrow> nat \<Rightarrow> error + int" where
  "randint a b raw =
     (if b < a then Inl (ValueError ''empty range for randrange()'')
      else Inr (a + int raw mod (b - a + 1)))"

fun random_loop :: "engine \<Rightarrow> nat \<Rightarrow> nat \<Rightarrow> int \<Rightarrow> (nat \<Rightarrow> nat) \<Rightarrow> projection \<Rightarrow> pyval action" where
  "random_loop db 0 i maxid rng p = raise (RuntimeError ''Random selection failed!'')"
| "random_loop db (Suc n) i maxid rng p =
     then_do (lift (randint 1 maxid (rng i)))
       (\<lambda>rid. then_do (lucky db [(''id'', PInt rid)] p 0)
          (\<lambda>res. if py_truth res then ret res else random_loop db n (Suc i) maxid rng p))"

definition random :: "engine \<Rightarrow> (nat \<Rightarrow> nat) \<Rightarrow> projection \<Rightarrow> pyval action" where
  "random db rng p =
     then_do (stats_max db ''id'')
       (\<lambda>m. case m of
               PInt maxid \<Rightarrow> random_loop db 100 0 maxid rng p
             | _ \<Rightarrow> raise TypeError)"

section \<open>Writing: upsert, resort, reload\<close>

text \<open>
  \<^verbatim>\<open>_break_stats\<close> and \<^verbatim>\<open>_break_order\<close>: the flag is written to \<^verbatim>\<open>meta_tables\<close> (without a
  commit) and set on the object, only when it is not set already.
\<close>

definition break_stats :: "engine \<Rightarrow> unit action" where
  "break_stats db w =
     (if stats_valid (tbl w) then
        then_do (execute db (SQL ''UPDATE meta_tables SET stats_valid = false WHERE name = %s'')
                   [Val (PStr (search_table (tbl w)))] False)
          (\<lambda>cur w1. (Inr (), w1\<lparr>tbl := (tbl w1)\<lparr>stats_valid := False\<rparr>\<rparr>)) w
      else ret () w)"

definition break_order :: "engine \<Rightarrow> unit action" where
  "break_order db w =
     (if \<not> out_of_order (tbl w) then
        then_do (execute db (SQL ''UPDATE meta_tables SET out_of_order = true WHERE name = %s'')
                   [Val (PStr (search_table (tbl w)))] False)
          (\<lambda>cur w1. (Inr (), w1\<lparr>tbl := (tbl w1)\<lparr>out_of_order := True\<rparr>\<rparr>)) w
      else ret () w)"

text \<open>Statements executed one after the other without a commit, up to the first exception.\<close>

fun exec_all :: "engine \<Rightarrow> (sql \<times> param list) list \<Rightarrow> unit action" where
  "exec_all db [] = ret ()"
| "exec_all db ((q, vals) # rest) =
     then_do (execute db q vals False) (\<lambda>cur. exec_all db rest)"

subsection \<open>upsert\<close>

text \<open>
  The split of \<^verbatim>\<open>data\<close> by column ownership. Without an extras table \<^verbatim>\<open>search_data\<close> is
  \<^verbatim>\<open>data\<close>, whose keys must be search columns; with one, each item goes to the dictionary
  of the table that owns its column.
\<close>

fun split_data :: "table \<Rightarrow> pydict \<Rightarrow> pydict \<Rightarrow> pydict \<Rightarrow> error + (pydict \<times> pydict)" where
  "split_data t [] sd ed = Inr (sd, ed)"
| "split_data t ((col, v) # rest) sd ed =
     (if col \<in> set (search_cols t) then split_data t rest (dict_set col v sd) ed
      else if col \<in> set (extra_cols t) then split_data t rest sd (dict_set col v ed)
      else Inl (ValueError (col @ '' is not a column of '' @ search_table t)))"

definition upsert_split :: "table \<Rightarrow> pydict \<Rightarrow> error + (pydict \<times> pydict)" where
  "upsert_split t data =
     (if extra_table t = None then
        (case find (\<lambda>col. col \<notin> set (search_cols t)) (map fst data) of
           Some col \<Rightarrow> Inl (ValueError (col @ '' is not a column of '' @ search_table t))
         | None \<Rightarrow> Inr (data, []))
      else split_data t data [] [])"

text \<open>
  The pairs of a physical table and its part of the data, the select of the ids of
  the rows the query matches (at most two), and the update of one table.
\<close>

definition upsert_cases :: "table \<Rightarrow> pydict \<Rightarrow> pydict \<Rightarrow> (string \<times> pydict) list" where
  "upsert_cases t sd ed =
     (search_table t, sd) # (case extra_table t of None \<Rightarrow> [] | Some extra \<Rightarrow> [(extra, ed)])"

definition upsert_select :: "table \<Rightarrow> sql \<Rightarrow> sql" where
  "upsert_select t qstr =
     Composed [SQL ''SELECT '', Identifier ''id'', SQL '' FROM '', Identifier (search_table t),
               SQL '' WHERE '', qstr, SQL '' LIMIT 2'']"

definition update_stmt :: "string \<Rightarrow> pydict \<Rightarrow> sql" where
  "update_stmt table dat =
     Composed [SQL ''UPDATE '', Identifier table, SQL '' SET ('',
               Composed (sql_join '', '' (map (\<lambda>kv. Identifier (fst kv)) dat)), SQL '') = ('',
               Composed (sql_join '', '' (replicate (length dat) Placeholder)), SQL '') WHERE '',
               SQL ''id = %s'']"

definition update_call :: "pyval \<Rightarrow> string \<times> pydict \<Rightarrow> sql \<times> param list" where
  "update_call row_id c = (update_stmt (fst c) (snd c), map (\<lambda>kv. Val (snd kv)) (snd c) @ [Val row_id])"

text \<open>
  The insertion branch: the items of the query whose key \<^verbatim>\<open>search_data\<close> does not hold
  are added to it, then both dictionaries get the id \<^verbatim>\<open>total + 1\<close>. The statement is
  built by \<^verbatim>\<open>inserter.format(...)\<close>, whose result is dropped: what is executed is the
  template itself, with the values of the row.
\<close>

definition merge_query :: "pydict \<Rightarrow> pydict \<Rightarrow> pydict" where
  "merge_query query sd = foldl (\<lambda>d kv. if dict_has (fst kv) d then d else dict_set (fst kv) (snd kv) d) sd query"

definition insertion_row :: "table \<Rightarrow> pydict \<Rightarrow> pydict \<Rightarrow> pydict" where
  "insertion_row t query sd = dict_set ''id'' (PInt (stats_total t + 1)) (merge_query query sd)"

definition insert_call :: "string \<times> pydict \<Rightarrow> sql \<times> param list" where
  "insert_call c = (SQL ''INSERT INTO {0} ({1}) VALUES ({2})'', map (\<lambda>kv. Val (snd kv)) (snd c))"

definition upsert :: "engine \<Rightarrow> pydict \<Rightarrow> pydict \<Rightarrow> unit action" where
  "upsert db query data w =
     (let t = tbl w in
      if query = [] \<or> data = [] then raise (ValueError ''Both query and data must be nonempty'') w
      else if dict_has ''id'' data then raise (ValueError ''Cannot set id'') w
      else
        (case find (\<lambda>col. col \<noteq> ''id'' \<and> col \<notin> set (search_cols t)) (map fst query) of
           Some col \<Rightarrow> raise (ValueError (col @ '' is not a column of '' @ search_table t))
         | None \<Rightarrow>
             then_do (lift (upsert_split t data))
               (\<lambda>(sd, ed).
                  then_do (lift (parse_dict t (PDict query) NoCol))
                    (\<lambda>r. case r of
                            None \<Rightarrow> raise TypeError
                          | Some (qstr, vals) \<Rightarrow>
                              then_do (execute db (upsert_select t qstr) vals True)
                                (\<lambda>cur.
                                   if rowcount cur > 1
                                   then raise (ValueError ''Query does not specify a unique row'')
                                   else
                                     then_do
                                       (if rowcount cur = 1 then
                                          then_do (lift (fetch_first cur))
                                            (\<lambda>row_id.
                                               then_do (exec_all db (map (update_call row_id) (upsert_cases t sd ed)))
                                                 (\<lambda>u w2. if \<not> out_of_order (tbl w2)
                                                              \<and> list_ex (\<lambda>key. key \<in> set (sort_keys (tbl w2))) (map fst data)
                                                           then break_order db w2 else ret () w2))
                                        else if dict_has ''id'' data \<or> dict_has ''id'' query
                                        then raise (ValueError ''Cannot specify an id for insertion'')
                                        else
                                          then_do (exec_all db
                                                     (map insert_call
                                                        (upsert_cases t (insertion_row t query sd)
                                                           (dict_set ''id'' (PInt (stats_total t + 1)) ed))))
                                            (\<lambda>u. then_do (break_order db)
                                               (\<lambda>u w2. (Inr (), w2\<lparr>tbl := (tbl w2)\<lparr>stats_total := stats_total (tbl w2) + 1\<rparr>\<rparr>))))
                                       (\<lambda>u. then_do (break_stats db) (\<lambda>u. commit)))))) w)"

subsection \<open>resort\<close>

text \<open>
  \<^verbatim>\<open>_identify_tables\<close>, and the loop that appends \<^verbatim>\<open>_\<close> to \<^verbatim>\<open>newid\<close> while it is the name of
  a column.
\<close>

definition identify_tables :: "table \<Rightarrow> string option \<Rightarrow> string option \<Rightarrow> error + (sql \<times> sql option)" where
  "identify_tables t st et =
     (let s = Identifier (case st of Some n \<Rightarrow> n | None \<Rightarrow> search_table t) in
      case et of
        Some n \<Rightarrow> if extra_table t = None then Inl (ValueError ''No extra table'') else Inr (s, Some (Identifier n))
      | None \<Rightarrow> Inr (s, map_option Identifier (extra_table t)))"

function newid_loop :: "string list \<Rightarrow> string \<Rightarrow> string" where
  "newid_loop cols newid = (if newid \<in> set cols then newid_loop cols (newid @ ''_'') else newid)"
  by pat_completeness auto
termination
proof (relation "measure (\<lambda>(cols, newid). Suc (Max (length ` set cols)) - length newid)")
  show "wf (measure (\<lambda>(cols, newid). Suc (Max (length ` set cols)) - length newid))"
    by simp
next
  fix cols :: "string list" and newid :: string
  assume "newid \<in> set cols"
  then have "length newid \<le> Max (length ` set cols)"
    by (intro Max_ge) auto
  then show "((cols, newid @ ''_''), (cols, newid))
      \<in> measure (\<lambda>(cols, newid). Suc (Max (length ` set cols)) - length newid)"
    by simp
qed

text \<open>The statements of a resort, in the order in which they are executed.\<close>

definition addcol :: "sql \<Rightarrow> sql \<Rightarrow> sql" where
  "addcol table col = Composed [SQL ''ALTER TABLE '', table, SQL '' ADD COLUMN '', col, SQL '' bigint'']"

definition dropcol :: "sql \<Rightarrow> sql \<Rightarrow> sql" where
  "dropcol table col = Composed [SQL ''ALTER TABLE '', table, SQL '' DROP COLUMN '', col]"

definition movecol :: "sql \<Rightarrow> sql \<Rightarrow> sql \<Rightarrow> sql" where
  "movecol table old new =
     Composed [SQL ''ALTER TABLE '', table, SQL '' RENAME COLUMN '', old, SQL '' TO '', new]"

definition pkey :: "sql \<Rightarrow> sql \<Rightarrow> sql" where
  "pkey table col = Composed [SQL ''ALTER TABLE '', table, SQL '' ADD PRIMARY KEY ('', col, SQL '')'']"

definition renumber :: "sql \<Rightarrow> sql \<Rightarrow> sql \<Rightarrow> sql" where
  "renumber table newid srt =
     Composed [SQL ''UPDATE '', table, SQL '' SET '', newid,
               SQL '' = newsort.newid FROM (SELECT id, ROW_NUMBER() OVER(ORDER BY '', srt,
               SQL '') AS newid FROM '', table, SQL '') newsort WHERE '', table,
               SQL ''.id = newsort.id'']"

definition copy_newid :: "sql \<Rightarrow> sql \<Rightarrow> sql \<Rightarrow> sql" where
  "copy_newid extra newid table =
     Composed [SQL ''UPDATE '', extra, SQL '' SET '', newid, SQL '' = search_table.'', newid,
               SQL '' FROM (SELECT id, '', newid, SQL '' FROM '', table,
               SQL '') search_table WHERE '', extra, SQL ''.id = search_table.id'']"

definition set_ordered :: "engine \<Rightarrow> bool \<Rightarrow> unit action" where
  "set_ordered db do_commit w =
     then_do (execute db (SQL ''UPDATE meta_tables SET out_of_order = false WHERE name = %s'')
                [Val (PStr (search_table (tbl w)))] do_commit)
       (\<lambda>cur w1. (Inr (), w1\<lparr>tbl := (tbl w1)\<lparr>out_of_order := False\<rparr>\<rparr>)) w"

text \<open>
  \<^verbatim>\<open>resort\<close>. It acts only on an id-ordered table, and then only when a table name is
  given or the table is out of order; otherwise it prints a message (output is not
  modelled) and does nothing. Formatting the renumbering statement with a table that
  has no sort order fails, after the new column was added.
\<close>

definition resort :: "engine \<Rightarrow> string option \<Rightarrow> string option \<Rightarrow> bool \<Rightarrow> unit action" where
  "resort db st et do_commit w =
     (if id_ordered (tbl w) \<and> (st \<noteq> None \<or> out_of_order (tbl w)) then
        then_do (lift (identify_tables (tbl w) st et))
          (\<lambda>(search, extra).
             let newid = Identifier (newid_loop (search_cols (tbl w) @ extra_cols (tbl w)) ''newid'');
                 oldid = Identifier ''id'' in
             then_do (execute db (addcol search newid) [] False)
               (\<lambda>cur. case sort_order (tbl w) of
                         None \<Rightarrow> raise TypeError
                       | Some srt \<Rightarrow>
                           then_do (exec_all db
                                      ([(renumber search newid srt, [])]
                                       @ (case extra of
                                            None \<Rightarrow> []
                                          | Some e \<Rightarrow> [(addcol e newid, []), (copy_newid e newid search, []),
                                                       (dropcol e oldid, []), (movecol e newid oldid, []),
                                                       (pkey e oldid, [])])
                                       @ [(dropcol search oldid, []), (movecol search newid oldid, []),
                                          (pkey search oldid, [])]))
                             (\<lambda>u. then_do (set_ordered db False)
                                (\<lambda>u. if do_commit then commit else ret ())))) w
      else ret () w)"

subsection \<open>reload\<close>

text \<open>
  \<^verbatim>\<open>_pkey_common\<close> for \<^verbatim>\<open>restore_pkeys\<close>: the primary key of the search table and of the
  extras table, if there is one, then the commit.
\<close>

definition pkey_stmt :: "string \<Rightarrow> string \<Rightarrow> sql" where
  "pkey_stmt table suffix =
     Composed [SQL ''ALTER TABLE '', Identifier (table @ suffix), SQL '' ADD CONSTRAINT '',
               Identifier (table @ suffix @ ''_pkey''), SQL '' PRIMARY KEY (id)'']"

definition restore_pkeys :: "engine \<Rightarrow> string \<Rightarrow> bool \<Rightarrow> unit action" where
  "restore_pkeys db suffix do_commit w =
     then_do (exec_all db
                ((pkey_stmt (search_table (tbl w)) suffix, [])
                 # (case extra_table (tbl w) of None \<Rightarrow> [] | Some e \<Rightarrow> [(pkey_stmt e suffix, [])])))
       (\<lambda>u. if do_commit then commit else ret ()) w"

text \<open>\<^verbatim>\<open>_check_file_input\<close>; \<^verbatim>\<open>kwds\<close> are the keyword arguments passed on to \<^verbatim>\<open>copy_from\<close>.\<close>

definition check_file_input :: "table \<Rightarrow> string option \<Rightarrow> string option \<Rightarrow> pydict \<Rightarrow> error + unit" where
  "check_file_input t searchfile extrafile kwds =
     (if searchfile = None then Inl (ValueError ''Must specify search file'')
      else if extrafile \<noteq> None \<and> extra_table t = None then Inl (ValueError ''No extra table available'')
      else if extrafile = None \<and> extra_table t \<noteq> None then Inl (ValueError ''Must provide file for extra table'')
      else if dict_has ''columns'' kwds then Inl (ValueError ''Cannot specify column order using the columns parameter'')
      else Inr ())"

text \<open>
  The files are a map from names to lines; opening a missing file raises \<^verbatim>\<open>IOError\<close>.
  \<^verbatim>\<open>_copy_from\<close> hands the lines to \<^verbatim>\<open>copy_from\<close> (with an id and the separator put before
  each line when the file has no ids) and returns the row count of the cursor; any
  exception of the copy rolls back and is raised again.
\<close>

type_synonym files = "string \<Rightarrow> string list option"

datatype copy_arg = CopyArg "string list" string "string list" pydict

definition copy_sql :: "copy_arg \<Rightarrow> sql" where
  "copy_sql a =
     (case a of CopyArg lines table columns kwds \<Rightarrow>
        Composed [SQL ''COPY '', Identifier table, SQL '' ('',
                  Composed (sql_join '', '' (map SQL columns)), SQL '') FROM STDIN''])"

definition with_ids :: "nat \<Rightarrow> string \<Rightarrow> string list \<Rightarrow> string list" where
  "with_ids cur_count sep lines =
     map (\<lambda>(i, line). show_nat (i + cur_count + 1) @ sep @ line) (zip [0..<length lines] lines)"

definition copy_from :: "engine \<Rightarrow> files \<Rightarrow> string \<Rightarrow> string \<Rightarrow> string list \<Rightarrow> nat \<Rightarrow> bool \<Rightarrow> pydict
    \<Rightarrow> int action" where
  "copy_from db fs filename table columns cur_count includes_ids kwds w =
     (let columns = map (\<lambda>col. [CHR 0x22] @ col @ [CHR 0x22]) columns in
      case fs filename of
        None \<Rightarrow> raise IOError w
      | Some lines \<Rightarrow>
          (case (if includes_ids then Inr lines
                 else (case map_of kwds ''sep'' of
                         None \<Rightarrow> Inr (with_ids cur_count [CHR 0x09] lines)
                       | Some (PStr sep) \<Rightarrow> Inr (with_ids cur_count sep lines)
                       | Some _ \<Rightarrow> if lines = [] then Inr [] else Inl TypeError)) of
             Inl err \<Rightarrow> raise err w
           | Inr lines' \<Rightarrow>
               (case send db (CopyFrom lines' table columns kwds) w of
                  (Inl err, w1) \<Rightarrow> (Inl err, snd (rollback w1))
                | (Inr cur, w1) \<Rightarrow> (Inr (rowcount cur), w1))))"

definition clone :: "engine \<Rightarrow> string \<Rightarrow> string \<Rightarrow> bool \<Rightarrow> unit action" where
  "clone db table tmp_table do_commit =
     then_do (execute db (Composed [SQL ''CREATE TABLE '', Identifier tmp_table, SQL '' (LIKE '',
                                    Identifier table, SQL '')'']) [] do_commit)
       (\<lambda>cur. ret ())"

text \<open>
  The staging loop of \<^verbatim>\<open>reload\<close> over the search, extras, counts and stats tables: a
  table without a file is skipped; the others are cloned to \<^verbatim>\<open>_tmp\<close> and loaded, and
  their names and row counts are recorded.
\<close>

fun count_set :: "string \<Rightarrow> int \<Rightarrow> (string \<times> int) list \<Rightarrow> (string \<times> int) list" where
  "count_set k n [] = [(k, n)]"
| "count_set k n ((k', n') # d) = (if k' = k then (k, n) # d else (k', n') # count_set k n d)"

fun stage :: "engine \<Rightarrow> files \<Rightarrow> bool \<Rightarrow> pydict \<Rightarrow> (string \<times> string list \<times> bool \<times> string option) list
    \<Rightarrow> string list \<Rightarrow> (string \<times> int) list \<Rightarrow> (string list \<times> (string \<times> int) list) action" where
  "stage db fs includes_ids kwds [] tables counts = ret (tables, counts)"
| "stage db fs includes_ids kwds ((table, cols, addid, filename) # rest) tables counts =
     (case filename of
        None \<Rightarrow> stage db fs includes_ids kwds rest tables counts
      | Some f \<Rightarrow>
          then_do (clone db table (table @ ''_tmp'') False)
            (\<lambda>u. then_do (copy_from db fs f (table @ ''_tmp'') (if addid then ''id'' # cols else cols)
                             0 includes_ids kwds)
               (\<lambda>n. stage db fs includes_ids kwds rest (tables @ [table])
                       (count_set table n counts))))"

definition reload_sources :: "table \<Rightarrow> string option \<Rightarrow> string option \<Rightarrow> string option \<Rightarrow> string option
    \<Rightarrow> (string \<times> string list \<times> bool \<times> string option) list" where
  "reload_sources t searchfile extrafile countsfile statsfile =
     [(search_table t, search_cols t, True, searchfile)]
     @ (case extra_table t of
          None \<Rightarrow> []
        | Some e \<Rightarrow> [(e, extra_cols t, True, extrafile)])
     @ [(counts_table t, [''cols'', ''values'', ''count''], False, countsfile),
        (stats_table t, [''cols'', ''stat'', ''value'', ''constraint_cols'', ''constraint_values'',
                         ''threshold''], False, statsfile)]"

text \<open>
  \<^verbatim>\<open>reload\<close>. After the staging loop the row counts of the search and the extras file
  are compared; a difference rolls back and raises. Then come the re-sort or the
  primary keys, the indexes, the statistics (\<^verbatim>\<open>refresh_stats\<close> is \<^verbatim>\<open>pass\<close>) and the swap.
  \<^verbatim>\<open>restore_indexes\<close> and \<^verbatim>\<open>_swap_in_tmp\<close> are parameters of the model: what is proved of
  \<^verbatim>\<open>reload\<close> holds whatever these two phases do.
\<close>

record phases =
  restore_indexes :: "string \<Rightarrow> unit action"
  swap_in_tmp :: "string list \<Rightarrow> bool \<Rightarrow> unit action"

definition reload :: "engine \<Rightarrow> files \<Rightarrow> phases \<Rightarrow> string option \<Rightarrow> string option \<Rightarrow> string option
    \<Rightarrow> string option \<Rightarrow> bool \<Rightarrow> bool option \<Rightarrow> bool \<Rightarrow> bool option \<Rightarrow> pydict \<Rightarrow> unit action" where
  "reload db fs ph searchfile extrafile countsfile statsfile includes_ids resort_arg reindex restat_arg kwds w =
     (let t = tbl w;
          do_resort = (case resort_arg of None \<Rightarrow> \<not> includes_ids | Some b \<Rightarrow> b);
          restat = (case restat_arg of None \<Rightarrow> countsfile = None \<or> statsfile = None | Some b \<Rightarrow> b) in
      then_do (lift (check_file_input t searchfile extrafile kwds))
        (\<lambda>u. then_do (stage db fs includes_ids kwds
                         (reload_sources t searchfile extrafile countsfile statsfile) [] [])
           (\<lambda>(tables, counts).
              if extrafile \<noteq> None
                 \<and> map_of counts (search_table t) \<noteq> (case extra_table t of None \<Rightarrow> None | Some e \<Rightarrow> map_of counts e)
              then then_do rollback
                     (\<lambda>u. raise (RuntimeError ''Different number of rows in searchfile and extrafile''))
              else
                then_do (if id_ordered t \<and> do_resort
                         then resort db (Some (search_table t @ ''_tmp''))
                                (map_option (\<lambda>e. e @ ''_tmp'') (extra_table t)) True
                         else restore_pkeys db ''_tmp'' True)
                  (\<lambda>u. then_do (if reindex then restore_indexes ph ''_tmp'' else ret ())
                     (\<lambda>u. then_do (swap_in_tmp ph
                                      (if restat
                                       then tables @ filter (\<lambda>x. x \<notin> set tables) [counts_table t, stats_table t]
                                       else tables) reindex)
                        (\<lambda>u. commit))))) w)"

section \<open>Example tables\<close>

text \<open>Two tables of the kind the docstrings use, for evaluating the model.\<close>

definition nf_fields :: table where
  "nf_fields =
     \<lparr> search_table = ''nf_fields'', extra_table = Some ''nf_fields_extras'',
       label_col = Some ''label'', count_cutoff = 1000,
       id_ordered = True, out_of_order = False, stats_valid = True,
       col_type = [(''id'', ''bigint''), (''unitsGmodule'', ''jsonb''), (''reg'', ''numeric''),
                   (''label'', ''text''), (''degree'', ''smallint''), (''r2'', ''smallint''),
                   (''ramps'', ''jsonb''), (''class_number'', ''bigint'')],
       search_cols = [''label'', ''degree'', ''r2'', ''ramps'', ''class_number''],
       extra_cols = [''unitsGmodule'', ''reg''],
       sort_keys = [''degree'', ''label''],
       primary_sort = Some ''degree'',
       sort_order = Some (Composed [Identifier ''degree'', SQL '', '', Identifier ''label'']),
       stats_total = 3 \<rparr>"

definition ec_curves :: table where
  "ec_curves =
     \<lparr> search_table = ''ec_curves'', extra_table = None,
       label_col = Some ''lmfdb_label'', count_cutoff = 1000,
       id_ordered = False, out_of_order = False, stats_valid = True,
       col_type = [(''id'', ''bigint''), (''lmfdb_label'', ''text''), (''conductor'', ''bigint'')],
       search_cols = [''lmfdb_label'', ''conductor''],
       extra_cols = [],
       sort_keys = [],
       primary_sort = None,
       sort_order = None,
       stats_total = 1 \<rparr>"

text \<open>
  An engine that keeps a count cache: it answers \<^verbatim>\<open>SELECT COUNT(*)\<close> with 7, and the lookup
  of a cached count with the count of the first \<^verbatim>\<open>INSERT\<close> in effect for the same columns
  and values, if there is one.
\<close>

definition is_prefix :: "string \<Rightarrow> string \<Rightarrow> bool" where
  "is_prefix p s = (take (length p) s = p)"

definition cached_count :: "stmt list \<Rightarrow> param list \<Rightarrow> pyval option" where
  "cached_count hist key =
     (case filter (\<lambda>st. case st of
                           Execute q vals \<Rightarrow> is_prefix ''INSERT INTO '' (as_string q) \<and> tl vals = key
                         | _ \<Rightarrow> False) hist of
        Execute q (Val c # _) # _ \<Rightarrow> Some c
      | _ \<Rightarrow> None)"

definition db_counting :: engine where
  "db_counting hist st =
     (case st of
        Execute q vals \<Rightarrow>
          if is_prefix ''SELECT COUNT(*) FROM '' (as_string q)
          then Inr \<lparr>rowcount = 1, rows = [[PInt 7]]\<rparr>
          else if is_prefix ''SELECT count FROM '' (as_string q)
          then (case cached_count hist vals of
                  Some c \<Rightarrow> Inr \<lparr>rowcount = 1, rows = [[c]]\<rparr>
                | None \<Rightarrow> Inr \<lparr>rowcount = 0, rows = []\<rparr>)
          else Inr \<lparr>rowcount = 0, rows = []\<rparr>
      | _ \<Rightarrow> Inr \<lparr>rowcount = 0, rows = []\<rparr>)"

definition world0 :: "table \<Rightarrow> world" where
  "world0 t = \<lparr>tbl = t, cn = \<lparr>committed = [], pending = [], issued = []\<rparr>\<rparr>"

text \<open>A fresh connection, and the query \<^verbatim>\<open>{"degree": 2}\<close> with the statements it leads to.\<close>

definition q_degree :: pydict where
  "q_degree = [(''degree'', PInt 2)]"

definition lookup_stmt :: stmt where
  "lookup_stmt = Execute (Composed [SQL ''SELECT count FROM '', Identifier ''nf_fields_counts'',
                                    SQL '' WHERE cols = %s AND values = %s''])
                         [Val (PList [PStr ''degree'']), Val (PList [PInt 2])]"

definition scan_stmt :: stmt where
  "scan_stmt = Execute (Composed [Composed [SQL ''SELECT COUNT(*) FROM '', Identifier ''nf_fields''],
                                  SQL '' WHERE '',
                                  Composed [Composed [Identifier ''degree'', SQL '' = %s'']]])
                       [Val (PInt 2)]"

text \<open>
  An engine that answers every select of columns with two records of one label each,
  and the \<^verbatim>\<open>info\<close> dictionary a search for \<^verbatim>\<open>{"degree": 2}\<close> with limit 1 then leaves.
\<close>

definition db_labels :: engine where
  "db_labels hist st =
     (case st of
        Execute q vals \<Rightarrow>
          if is_prefix (''SELECT '' @ [CHR 0x22]) (as_string q)
          then Inr \<lparr>rowcount = 2, rows = [[PStr ''2.2.5.1''], [PStr ''2.2.8.1'']]\<rparr>
          else Inr \<lparr>rowcount = 0, rows = []\<rparr>
      | _ \<Rightarrow> Inr \<lparr>rowcount = 0, rows = []\<rparr>)"

definition info_degree :: pydict where
  "info_degree = [(''query'', PDict [(''degree'', PInt 2)]), (''number'', PInt 2), (''count'', PInt 1),
                  (''start'', PInt 0), (''exact_count'', PBool True)]"

text \<open>
  The select of that search on a fresh connection: the cache has no count of the query,
  so the bound limit is \<^verbatim>\<open>max(1, 1000 - 0)\<close>.
\<close>

definition select_degree :: stmt where
  "select_degree =
     Execute (Composed [SQL ''SELECT '', Composed [Identifier ''label''], SQL '' FROM '',
                        Identifier ''nf_fields'',
                        Composed [Composed [Composed [SQL '' WHERE '',
                                                      Composed [Composed [Identifier ''degree'', SQL '' = %s'']]],
                                            SQL '' ORDER BY '',
                                            Composed [Identifier ''degree'', SQL '', '', Identifier ''label'']],
                                  SQL '' LIMIT %s'']])
             [Val (PInt 2), Val (PInt 1000)]"

text \<open>
  The statements of the staging loop of \<^verbatim>\<open>reload\<close>: a \<^verbatim>\<open>CREATE TABLE ... (LIKE ...)\<close> or a
  copy. An engine that loads every line of a copied file, the files of a reload with
  100 search rows and 99 extras rows, and later phases that do nothing.
\<close>

definition is_staging :: "stmt \<Rightarrow> bool" where
  "is_staging st =
     (case st of
        CopyFrom lines table columns kwds \<Rightarrow> True
      | Execute q vals \<Rightarrow> is_prefix ''CREATE TABLE '' (as_string q))"

definition db_copy :: engine where
  "db_copy hist st =
     (case st of
        CopyFrom lines table columns kwds \<Rightarrow> Inr \<lparr>rowcount = int (length lines), rows = []\<rparr>
      | Execute q vals \<Rightarrow> Inr \<lparr>rowcount = 0, rows = []\<rparr>)"

definition fs_scenario :: files where
  "fs_scenario name =
     (if name = ''search.txt'' then Some (replicate 100 ''1'')
      else if name = ''extras.txt'' then Some (replicate 99 ''1'')
      else None)"

definition no_phases :: phases where
  "no_phases = \<lparr>restore_indexes = (\<lambda>suffix. ret ()), swap_in_tmp = (\<lambda>tables indexed. ret ())\<rparr>"

text \<open>The two flags that \<^verbatim>\<open>_break_order\<close> and \<^verbatim>\<open>_break_stats\<close> write to \<^verbatim>\<open>meta_tables\<close>.\<close>

definition order_flag :: "table \<Rightarrow> stmt" where
  "order_flag t = Execute (SQL ''UPDATE meta_tables SET out_of_order = true WHERE name = %s'')
                          [Val (PStr (search_table t))]"

definition stats_flag :: "table \<Rightarrow> stmt" where
  "stats_flag t = Execute (SQL ''UPDATE meta_tables SET stats_valid = false WHERE name = %s'')
                          [Val (PStr (search_table t))]"

text \<open>
  An engine that answers the select of the matching ids with \<open>n\<close> rows of id 17 and
  accepts every other statement; a query by label, a query by id, and data for one
  column of each physical table of \<^verbatim>\<open>nf_fields\<close>.
\<close>

definition db_matches :: "int \<Rightarrow> engine" where
  "db_matches n hist st =
     (case st of
        Execute q vals \<Rightarrow>
          if is_prefix (''SELECT '' @ [CHR 0x22] @ ''id'' @ [CHR 0x22] @ '' FROM '') (as_string q)
          then Inr \<lparr>rowcount = n, rows = replicate (nat n) [PInt 17]\<rparr>
          else Inr \<lparr>rowcount = 0, rows = []\<rparr>
      | _ \<Rightarrow> Inr \<lparr>rowcount = 0, rows = []\<rparr>)"

definition q_label :: pydict where
  "q_label = [(''label'', PStr ''2.2.5.1'')]"


definition data_degree :: pydict where
  "data_degree = [(''degree'', PInt 2), (''reg'', PInt 1)]"

definition label_test :: sql where
  "label_test = Composed [Composed [Identifier ''label'', SQL '' = %s'']]"


section \<open>Verified properties\<close>

subsection \<open>Projections\<close>

lemma proj_search_loop_rest:
  "snd (proj_search_loop b cols d acc) = filter (\<lambda>kv. fst kv \<notin> set cols) d"
  by (induction cols arbitrary: d acc) (auto simp: dict_pop_def intro: filter_cong)

lemma proj_extra_loop_none:
  "proj_extra_loop b [] cols d acc =
     ((if b then acc else acc @ cols), filter (\<lambda>kv. fst kv \<notin> set cols) d)"
  by (induction cols arbitrary: d acc) (auto simp: dict_pop_def intro: filter_cong)

lemma remdups_rep: "n \<noteq> 0 \<Longrightarrow> remdups (replicate n x) = [x]"
  by (induction n) auto

lemma projvals_uniform:
  assumes "d \<noteq> []" "\<forall>kv\<in>set d. py_truth (snd kv) = b"
  shows "remdups (map (\<lambda>kv. PBool (py_truth (snd kv))) d) = [PBool b]"
proof -
  have "map (\<lambda>kv. PBool (py_truth (snd kv))) d = replicate (length d) (PBool b)"
    using assms(2) by (induction d) auto
  moreover have "length d \<noteq> 0" using assms(1) by simp
  ultimately show ?thesis by (simp add: remdups_rep)
qed

text \<open>
  Claim C10. On a table with an extras table, a nonempty dictionary projection whose
  values are all true resolves to no extras column, and one whose values are all false
  resolves to every extras column, whichever extras columns the dictionary names; and
  when every key is \<^verbatim>\<open>id\<close> or a column of one of the two tables, no error is raised.
\<close>

theorem dict_projection_extras:
  assumes "extra_table t \<noteq> None" and "d \<noteq> []" and "\<forall>kv\<in>set d. py_truth (snd kv) = b"
  shows "(\<forall>s e off. parse_projection t (ProjDict d) = Inr (s, e, off)
            \<longrightarrow> e = (if b then [] else extra_cols t))
       \<and> ((\<forall>k\<in>set (map fst d). k = ''id'' \<or> k \<in> set (search_cols t) \<or> k \<in> set (extra_cols t))
            \<longrightarrow> (\<exists>s off. parse_projection t (ProjDict d)
                    = Inr (s, (if b then [] else extra_cols t), off)))"
proof -
  let ?d1 = "dict_pop ''id'' d"
  let ?d2 = "filter (\<lambda>kv. fst kv \<notin> set (search_cols t)) ?d1"
  let ?d3 = "filter (\<lambda>kv. fst kv \<notin> set (extra_cols t)) ?d2"
  let ?e = "if b then [] else extra_cols t"
  let ?inc = "case map_of d ''id'' of None \<Rightarrow> False | Some v \<Rightarrow> py_truth v"
  obtain s where sl: "proj_search_loop b (search_cols t) ?d1 [] = (s, ?d2)"
    by (metis prod.collapse proj_search_loop_rest)
  have res: "parse_projection t (ProjDict d) =
      (if ?d3 \<noteq> []
       then Inl (ValueError (join_str '', '' (map fst ?d3) @ '' not column of '' @ search_table t))
       else Inr (proj_finish s ?e ?inc))"
    using assms(1,2) projvals_uniform[OF assms(2,3)]
    by (simp add: parse_projection_def sl proj_extra_loop_none Let_def)
  have a: "\<forall>s e off. parse_projection t (ProjDict d) = Inr (s, e, off) \<longrightarrow> e = ?e"
    unfolding res by (simp add: proj_finish_def)
  have b: "(\<forall>k\<in>set (map fst d). k = ''id'' \<or> k \<in> set (search_cols t) \<or> k \<in> set (extra_cols t))
            \<longrightarrow> (\<exists>s off. parse_projection t (ProjDict d) = Inr (s, ?e, off))"
  proof
    assume h: "\<forall>k\<in>set (map fst d). k = ''id'' \<or> k \<in> set (search_cols t) \<or> k \<in> set (extra_cols t)"
    have "?d3 = []"
      using h by (auto simp: dict_pop_def filter_empty_conv)
    then show "\<exists>s off. parse_projection t (ProjDict d) = Inr (s, ?e, off)"
      unfolding res by (simp add: proj_finish_def)
  qed
  from a b show ?thesis by blast
qed

theorem dict_projection_extras_witness:
  "extra_table nf_fields \<noteq> None
   \<and> parse_projection nf_fields (ProjDict [(''label'', PBool True), (''reg'', PBool True)])
       = Inr ([''label''], [], 0)"
proof -
  have h1: "extra_table nf_fields \<noteq> None" by (simp add: nf_fields_def)
  have h2: "[(''label'', PBool True), (''reg'', PBool True)] \<noteq> []" by simp
  have h3: "\<forall>kv\<in>set [(''label'', PBool True), (''reg'', PBool True)]. py_truth (snd kv) = True"
    by simp
  have e: "parse_projection nf_fields (ProjDict [(''label'', PBool True), (''reg'', PBool True)])
       = Inr ([''label''], [], 0)"
    by code_simp
  from dict_projection_extras[OF h1 h2 h3] h1 e show ?thesis
    by simp
qed

text \<open>
  Claim C8, as amended. Projection code \<^verbatim>\<open>0\<close> yields the single column \<^verbatim>\<open>label\<close>, no
  extras column and offset 0 exactly when the search table has a column named
  \<^verbatim>\<open>label\<close>, and raises \<^verbatim>\<open>RuntimeError\<close> otherwise; the declared \<^verbatim>\<open>label_col\<close> plays no part.
  The table \<^verbatim>\<open>ec_curves\<close> declares the label column \<^verbatim>\<open>lmfdb_label\<close> and is refused.
\<close>

theorem label_projection:
  "parse_projection t Proj0 =
     (if ''label'' \<in> set (search_cols t) then Inr ([''label''], [], 0)
      else Inl (RuntimeError (''label not column of '' @ search_table t)))"
  by (simp add: parse_projection_def)

theorem label_projection_witness:
  "parse_projection nf_fields Proj0 = Inr ([''label''], [], 0)"
  using label_projection[of nf_fields] by (simp add: nf_fields_def)

theorem label_projection_counterexample:
  "label_col ec_curves = Some ''lmfdb_label''
   \<and> parse_projection ec_curves Proj0 = Inl (RuntimeError ''label not column of ec_curves'')"
  by (simp add: parse_projection_def ec_curves_def)

subsection \<open>Query translation\<close>

lemma parse_items_plain:
  "list_all (plain_equality t) D \<Longrightarrow>
   parse_items t D outer = Inr (map equality_test D, map (\<lambda>kv. Val (snd kv)) D)"
proof (induction D)
  case Nil
  then show ?case by simp
next
  case (Cons kv D)
  obtain k v where kv: "kv = (k, v)" by (cases kv)
  from Cons.prems have p: "plain_equality t (k, v)" and rest: "list_all (plain_equality t) D"
    by (simp_all add: kv)
  from p have rk: "resolve_key t k = Inr (ColName k, False)"
    by (auto simp: plain_equality_def resolve_key_def split: option.splits)
  from p have leaf: "equality_leaf (ColName k) False v = ([equality_test (k, v)], [Val v])"
    by (auto simp: plain_equality_def equality_leaf_def equality_test_def fmt_def col_sql_def
             split: pyval.splits)
  from p have nd: "\<And>d. v \<noteq> PDict d" by (auto simp: plain_equality_def)
  from p have k1: "k \<noteq> []" "hd k \<noteq> CHR ''$''" by (auto simp: plain_equality_def)
  show ?case
    using Cons.IH[OF rest] rk leaf nd k1
    by (cases v) (auto simp: kv)
qed

text \<open>
  Claim C7, as amended. A nonempty query of plain equality clauses compiles to the
  conjunction of the tests \<^verbatim>\<open>"col" = %s\<close> and to the list of the bound values, both in the
  order in which the dictionary yields its items; the order in which the table
  declares its columns plays no part. For \<^verbatim>\<open>{"degree": 2, "class_number": 6}\<close>, which
  yields \<^verbatim>\<open>class_number\<close> first (as in the doctest of \<^verbatim>\<open>_parse_dict\<close>), the parameters
  are \<^verbatim>\<open>[6, 2]\<close> although \<^verbatim>\<open>degree\<close> is declared before \<^verbatim>\<open>class_number\<close>.
\<close>

theorem equality_query_order:
  assumes "D \<noteq> []" and "list_all (plain_equality t) D"
  shows "parse_dict t (PDict D) NoCol =
           Inr (Some (Composed (sql_join '' AND '' (map equality_test D)),
                      map (\<lambda>kv. Val (snd kv)) D))"
  using assms by (simp add: parse_items_plain)

theorem equality_query_order_witness:
  "parse_dict nf_fields (PDict [(''class_number'', PInt 6), (''degree'', PInt 2)]) NoCol =
     Inr (Some (Composed [Composed [Identifier ''class_number'', SQL '' = %s''], SQL '' AND '',
                          Composed [Identifier ''degree'', SQL '' = %s'']],
                [Val (PInt 6), Val (PInt 2)]))"
proof -
  have h1: "[(''class_number'', PInt 6), (''degree'', PInt 2)] \<noteq> []" by simp
  have h2: "list_all (plain_equality nf_fields) [(''class_number'', PInt 6), (''degree'', PInt 2)]"
    by (simp add: plain_equality_def nf_fields_def)
  from equality_query_order[OF h1 h2] show ?thesis
    by (simp add: equality_test_def)
qed

theorem equality_query_order_counterexample:
  "search_cols nf_fields = [''label'', ''degree'', ''r2'', ''ramps'', ''class_number'']
   \<and> parse_dict nf_fields (PDict [(''class_number'', PInt 6), (''degree'', PInt 2)]) NoCol
       = Inr (Some (Composed [Composed [Identifier ''class_number'', SQL '' = %s''], SQL '' AND '',
                              Composed [Identifier ''degree'', SQL '' = %s'']],
                    [Val (PInt 6), Val (PInt 2)]))
   \<and> parse_dict nf_fields (PDict [(''class_number'', PInt 6), (''degree'', PInt 2)]) NoCol
       \<noteq> Inr (Some (Composed [Composed [Identifier ''class_number'', SQL '' = %s''], SQL '' AND '',
                              Composed [Identifier ''degree'', SQL '' = %s'']],
                    [Val (PInt 2), Val (PInt 6)]))"
  by (simp add: nf_fields_def resolve_key_def equality_leaf_def fmt_def col_sql_def)

text \<open>
  Claim C1. The translation of \<^verbatim>\<open>{"degree": {"$nin": [1, 2]}}\<close>, a query over a declared
  column with a documented operator, is the text \<^verbatim>\<open>NOT ("degree" = ANY(%s)\<close>: it opens two
  parentheses and closes one, so it is not a well-formed expression.
\<close>

theorem nin_statement_unbalanced:
  "parse_dict nf_fields (PDict [(''degree'', PDict [(''$nin'', PList [PInt 1, PInt 2])])]) NoCol
     = Inr (Some (Composed [Composed [Composed [SQL ''NOT ('', Identifier ''degree'', SQL '' = ANY(%s)'']]],
                  [Array (PList [PInt 1, PInt 2])]))
   \<and> as_string (Composed [Composed [Composed [SQL ''NOT ('', Identifier ''degree'', SQL '' = ANY(%s)'']]])
       = ''NOT ('' @ [CHR 0x22] @ ''degree'' @ [CHR 0x22] @ '' = ANY(%s)''
   \<and> count_char CHR ''(''
         (as_string (Composed [Composed [Composed [SQL ''NOT ('', Identifier ''degree'', SQL '' = ANY(%s)'']]])) = 2
   \<and> count_char CHR '')''
         (as_string (Composed [Composed [Composed [SQL ''NOT ('', Identifier ''degree'', SQL '' = ANY(%s)'']]])) = 1"
  by (simp add: nf_fields_def resolve_key_def starts_dollar_def special_leaf_def
        special_template_def fmt_def count_char_def)

text \<open>
  The other half of claim C1 holds: a clause whose key is neither an operator, nor
  \<^verbatim>\<open>id\<close>, nor a search column (for a dotted key, its first segment) raises.
\<close>

lemma unknown_column_raises:
  assumes "key \<noteq> []" and "hd key \<noteq> CHR ''$''"
    and "(if CHR ''.'' \<in> set key then hd (split_on CHR ''.'' [] key) else key) \<notin> set (''id'' # search_cols t)"
  shows "\<exists>err. parse_dict t (PDict ((key, v) # rest)) outer = Inl err"
proof -
  have "\<exists>err. resolve_key t key = Inl err"
  proof (cases "CHR ''.'' \<in> set key")
    case True
    then show ?thesis using assms(3) by (simp add: resolve_key_def Let_def)
  next
    case False
    then show ?thesis using assms(3) by (simp add: resolve_key_def split: option.splits)
  qed
  then show ?thesis using assms(1,2) by auto
qed

subsection \<open>Counting\<close>

lemma execute_issued:
  "execute db q vals c w = (r, w') \<Longrightarrow> issued (cn w') = issued (cn w) @ [Execute q vals] \<and> tbl w' = tbl w"
  by (auto simp: execute_def send_def commit_def rollback_def Let_def split: sum.splits if_splits prod.splits)

lemma execute_result:
  "fst (execute db q vals c w) = db (committed (cn w) @ pending (cn w)) (Execute q vals)"
  by (auto simp: execute_def send_def commit_def rollback_def Let_def split: sum.splits if_splits prod.splits)

lemma quick_count_tbl: "quick_count db query w = (r, w') \<Longrightarrow> tbl w' = tbl w"
  by (auto simp: quick_count_def then_do_def lift_def ret_def Let_def
           split: prod.splits sum.splits if_splits dest: execute_issued)

text \<open>
  Claim C3, as amended. \<^verbatim>\<open>count\<close> returns the cached table total for the empty query,
  without a statement; for another query it returns the cached exact count when the
  lookup finds one; otherwise it runs the full-scan count and returns its result, and
  the scan is the only statement after the lookup: \<^verbatim>\<open>count\<close> calls \<^verbatim>\<open>_slow_count\<close> with
  \<^verbatim>\<open>record=False\<close>, so nothing is stored and a repeated count scans again.
\<close>

theorem count_behaviour:
  "count db [] w = (Inr (stats_total (tbl w)), w)
   \<and> (query \<noteq> [] \<and> quick_count db query w = (Inr (Some n), w1) \<longrightarrow> count db query w = (Inr n, w1))
   \<and> (query \<noteq> [] \<and> quick_count db query w = (Inr None, w1)
        \<and> parse_dict (tbl w) (PDict query) NoCol = Inr r \<and> count_select (tbl w) r = (sel, vals)
      \<longrightarrow> fst (count db query w)
            = (case db (committed (cn w1) @ pending (cn w1)) (Execute sel vals) of
                 Inl err \<Rightarrow> Inl err
               | Inr cur \<Rightarrow> (case fetch_first cur of Inl err \<Rightarrow> Inl err | Inr v \<Rightarrow> py_int v))
          \<and> issued (cn (snd (count db query w))) = issued (cn w1) @ [Execute sel vals])"
proof (intro conjI impI)
  show "count db [] w = (Inr (stats_total (tbl w)), w)"
    by (simp add: count_def ret_def)
next
  assume "query \<noteq> [] \<and> quick_count db query w = (Inr (Some n), w1)"
  then show "count db query w = (Inr n, w1)"
    by (simp add: count_def then_do_def ret_def)
next
  assume a: "query \<noteq> [] \<and> quick_count db query w = (Inr None, w1)
        \<and> parse_dict (tbl w) (PDict query) NoCol = Inr r \<and> count_select (tbl w) r = (sel, vals)"
  then have t1: "tbl w1 = tbl w" using quick_count_tbl by blast
  from a have c: "count db query w = then_do (slow_count db query False) (\<lambda>nres. lift (py_int nres)) w1"
    by (simp add: count_def then_do_def)
  obtain er w2 where e: "execute db sel vals True w1 = (er, w2)" by (cases "execute db sel vals True w1")
  from execute_issued[OF e] have i: "issued (cn w2) = issued (cn w1) @ [Execute sel vals]" by simp
  from execute_result[of db sel vals True w1] e
  have er: "er = db (committed (cn w1) @ pending (cn w1)) (Execute sel vals)" by simp
  have s: "slow_count db query False w1 =
             (case er of Inl err \<Rightarrow> (Inl err, w2) | Inr cur \<Rightarrow> (fetch_first cur, w2))"
  proof -
    from a t1 have pd: "parse_dict (tbl w1) (PDict query) NoCol = Inr r"
      and cs: "count_select (tbl w1) r = (sel, vals)" by (simp_all del: parse_dict.simps)
    show ?thesis
      by (simp add: slow_count_def then_do_def lift_def ret_def pd cs e
               del: parse_dict.simps split: sum.splits)
  qed
  show "fst (count db query w)
            = (case db (committed (cn w1) @ pending (cn w1)) (Execute sel vals) of
                 Inl err \<Rightarrow> Inl err
               | Inr cur \<Rightarrow> (case fetch_first cur of Inl err \<Rightarrow> Inl err | Inr v \<Rightarrow> py_int v))"
    unfolding c er[symmetric] using s by (simp add: then_do_def lift_def split: sum.splits)
  show "issued (cn (snd (count db query w))) = issued (cn w1) @ [Execute sel vals]"
    unfolding c using s i by (simp add: then_do_def lift_def split: sum.splits)
qed

lemma ex_quick: "fst (quick_count db_counting q_degree (world0 nf_fields)) = Inr None"
  by code_simp

lemma ex_quick_w: "snd (quick_count db_counting q_degree (world0 nf_fields)) =
   \<lparr>tbl = nf_fields, cn = \<lparr>committed = [lookup_stmt], pending = [], issued = [lookup_stmt]\<rparr>\<rparr>"
  by code_simp

lemma ex_parse: "parse_dict nf_fields (PDict q_degree) NoCol =
    Inr (Some (Composed [Composed [Identifier ''degree'', SQL '' = %s'']], [Val (PInt 2)]))"
  by code_simp

theorem count_behaviour_witness:
  "count db_counting [] (world0 nf_fields) = (Inr 3, world0 nf_fields)
   \<and> fst (count db_counting q_degree (world0 nf_fields)) = Inr 7
   \<and> issued (cn (snd (count db_counting q_degree (world0 nf_fields)))) = [lookup_stmt, scan_stmt]"
proof -
  let ?w1 = "\<lparr>tbl = nf_fields, cn = \<lparr>committed = [lookup_stmt], pending = [], issued = [lookup_stmt]\<rparr>\<rparr>"
  let ?q = "Composed [Composed [Identifier ''degree'', SQL '' = %s'']]"
  let ?sel = "Composed [Composed [SQL ''SELECT COUNT(*) FROM '', Identifier ''nf_fields''],
                        SQL '' WHERE '', ?q]"
  let ?vals = "[Val (PInt 2)]"
  have a: "q_degree \<noteq> []" by (simp add: q_degree_def)
  have b: "quick_count db_counting q_degree (world0 nf_fields) = (Inr None, ?w1)"
    using ex_quick ex_quick_w by (simp add: prod_eq_iff)
  have c: "parse_dict (tbl (world0 nf_fields)) (PDict q_degree) NoCol = Inr (Some (?q, ?vals))"
    using ex_parse by (simp add: world0_def del: parse_dict.simps)
  have d: "count_select (tbl (world0 nf_fields)) (Some (?q, ?vals)) = (?sel, ?vals)"
    by code_simp
  have e: "db_counting (committed (cn ?w1) @ pending (cn ?w1)) (Execute ?sel ?vals)
             = Inr \<lparr>rowcount = 1, rows = [[PInt 7]]\<rparr>"
    by code_simp
  have f: "stats_total (tbl (world0 nf_fields)) = 3" by (simp add: world0_def nf_fields_def)
  from count_behaviour[where db = db_counting and w = "world0 nf_fields" and query = q_degree
         and ?w1.0 = ?w1 and r = "Some (?q, ?vals)" and sel = ?sel and vals = ?vals] a b c d e f
  show ?thesis
    by (simp add: fetch_first_def py_int_def scan_stmt_def del: parse_dict.simps)
qed

theorem count_behaviour_counterexample:
  "fst (count db_counting q_degree (world0 nf_fields)) = Inr 7
   \<and> issued (cn (snd (count db_counting q_degree (world0 nf_fields)))) = [lookup_stmt, scan_stmt]
   \<and> fst (quick_count db_counting q_degree (snd (count db_counting q_degree (world0 nf_fields))))
       = Inr None
   \<and> fst (quick_count db_counting q_degree
            (snd (slow_count db_counting q_degree True (world0 nf_fields)))) = Inr (Some 7)"
  by code_simp

subsection \<open>Random selection\<close>

lemma stats_max_id: "stats_max db ''id'' w = (Inr (PInt (stats_total (tbl w) - 1)), w)"
  by (simp add: stats_max_def count_def then_do_def ret_def)

lemma randint_range: "randint a b raw = Inr rid \<Longrightarrow> a \<le> rid \<and> rid \<le> b"
proof -
  assume h: "randint a b raw = Inr rid"
  then have le: "a \<le> b" and rid: "rid = a + int raw mod (b - a + 1)"
    by (auto simp: randint_def split: if_splits)
  have pos: "0 < b - a + 1" using le by simp
  have "0 \<le> int raw mod (b - a + 1)" using pos by (rule pos_mod_sign)
  moreover have "int raw mod (b - a + 1) < b - a + 1" using pos by (rule pos_mod_bound)
  ultimately show ?thesis using rid by linarith
qed

lemma random_loop_100:
  "random_loop db 100 i maxid rng p =
     then_do (lift (randint 1 maxid (rng i)))
       (\<lambda>rid. then_do (lucky db [(''id'', PInt rid)] p 0)
          (\<lambda>res. if py_truth res then ret res else random_loop db 99 (Suc i) maxid rng p))"
  using random_loop.simps(2)[of db 99 i maxid rng p] by simp

text \<open>
  Claim C6. \<^verbatim>\<open>max('id')\<close> is the cached total minus one, not the greatest id, so the
  draw ranges over 1 .. total - 1. On the table \<^verbatim>\<open>ec_curves\<close> with its single row (total 1,
  id 1) the range is empty: \<^verbatim>\<open>random\<close> raises the \<^verbatim>\<open>ValueError\<close> of \<^verbatim>\<open>randint\<close>, whatever
  the engine holds, and looks no row up.
\<close>

theorem random_single_row:
  "stats_total ec_curves = 1
   \<and> fst (stats_max db ''id'' (world0 ec_curves)) = Inr (PInt 0)
   \<and> fst (random db rng Proj1 (world0 ec_curves)) = Inl (ValueError ''empty range for randrange()'')"
  by (simp add: random_def stats_max_def count_def then_do_def ret_def lift_def world0_def
        ec_curves_def random_loop_100 randint_def)

subsection \<open>Searching with a limit\<close>

lemma map_of_dict_set: "map_of (dict_set k v d) k' = (if k' = k then Some v else map_of d k')"
  by (induction d) auto

lemma search_iterator_length:
  "search_iterator db recs sc ec off p w = (Inr res, w') \<Longrightarrow> length res = length recs"
proof (induction recs arbitrary: w res)
  case Nil
  then show ?case by (simp add: ret_def)
next
  case (Cons r recs)
  from Cons.prems obtain x w1 xs where
    "search_iterator db recs sc ec off p w1 = (Inr xs, w')" and "res = x # xs"
    by (auto simp: then_do_def ret_def split: prod.splits sum.splits)
  with Cons.IH show ?case by auto
qed

lemma fetchmany_length: "0 \<le> n \<Longrightarrow> length (fetchmany cur n) \<le> nat n"
  by (simp add: fetchmany_def)

lemma build_query_limit:
  "build_query t q (Some l) off s = Inr (qstr, vals) \<Longrightarrow>
   \<exists>base. vals = base @ Val (PInt l) # (if off \<noteq> 0 then [Val (PInt off)] else [])"
  by (auto simp: build_query_def Let_def split: sum.splits prod.splits option.splits if_splits
           simp del: parse_dict.simps)

lemma execute_value:
  "execute db q vals c w = (Inr cur, w') \<Longrightarrow>
   db (committed (cn w) @ pending (cn w)) (Execute q vals) = Inr cur"
  using execute_result[of db q vals c w] by simp

lemma info_update_reads:
  "info_update query nres limit offset exact i = Inr i' \<Longrightarrow>
   map_of i' ''exact_count'' = Some (PBool exact) \<and> map_of i' ''number'' = Some (PInt nres)"
  by (auto simp: info_update_def Let_def map_of_dict_set split: if_splits)

lemma as_string_fmt: "as_string (fmt pre x post) = pre @ as_string x @ post"
  by (simp add: fmt_def)

lemma as_string_fmt2: "as_string (fmt2 pre a mid b post) = pre @ as_string a @ mid @ as_string b @ post"
  by (simp add: fmt2_def)

lemma build_query_text:
  "build_query t q (Some l) off s = Inr (qstr, vals) \<Longrightarrow>
   \<exists>r order. parse_dict t (PDict q) NoCol = Inr r
     \<and> as_string qstr = (case r of None \<Rightarrow> [] | Some (wq, wv) \<Rightarrow> '' WHERE '' @ as_string wq)
          @ order @ '' LIMIT %s'' @ (if off \<noteq> 0 then '' OFFSET %s'' else [])
     \<and> vals = (case r of None \<Rightarrow> [] | Some (wq, wv) \<Rightarrow> wv)
          @ Val (PInt l) # (if off \<noteq> 0 then [Val (PInt off)] else [])"
  by (auto simp: build_query_def Let_def as_string_fmt as_string_fmt2
           split: sum.splits prod.splits option.splits if_splits
           simp del: parse_dict.simps)

lemma execute_commit_state:
  "execute db q vals True w = (Inr cur, w') \<Longrightarrow>
   db (committed (cn w) @ pending (cn w)) (Execute q vals) = Inr cur
   \<and> issued (cn w') = issued (cn w) @ [Execute q vals]
   \<and> committed (cn w') = committed (cn w) @ pending (cn w) @ [Execute q vals]
   \<and> pending (cn w') = [] \<and> tbl w' = tbl w"
  by (auto simp: execute_def send_def commit_def rollback_def Let_def
           split: sum.splits if_splits prod.splits)

lemma quick_count_trace:
  assumes "quick_count db query w = (Inr qc, w1)"
  shows "\<exists>c. db (committed (cn w) @ pending (cn w))
                (Execute (fmt ''SELECT count FROM '' (Identifier (counts_table (tbl w)))
                              '' WHERE cols = %s AND values = %s'')
                         [Val (fst (split_dict query)), Val (snd (split_dict query))]) = Inr c
           \<and> ((rowcount c = 0 \<and> qc = None)
              \<or> (rowcount c \<noteq> 0 \<and> (\<exists>v n. fetch_first c = Inr v \<and> py_int v = Inr n \<and> qc = Some n)))
           \<and> issued (cn w1) = issued (cn w)
                @ [Execute (fmt ''SELECT count FROM '' (Identifier (counts_table (tbl w)))
                                '' WHERE cols = %s AND values = %s'')
                           [Val (fst (split_dict query)), Val (snd (split_dict query))]]
           \<and> committed (cn w1) = committed (cn w) @ pending (cn w)
                @ [Execute (fmt ''SELECT count FROM '' (Identifier (counts_table (tbl w)))
                                '' WHERE cols = %s AND values = %s'')
                           [Val (fst (split_dict query)), Val (snd (split_dict query))]]
           \<and> pending (cn w1) = [] \<and> tbl w1 = tbl w"
proof -
  let ?q = "fmt ''SELECT count FROM '' (Identifier (counts_table (tbl w)))
                '' WHERE cols = %s AND values = %s''"
  let ?v = "[Val (fst (split_dict query)), Val (snd (split_dict query))]"
  obtain re w2 where e: "execute db ?q ?v True w = (re, w2)" by (cases "execute db ?q ?v True w")
  from assms e obtain c where c: "re = Inr c"
    by (cases re) (auto simp: quick_count_def then_do_def Let_def split: prod.splits)
  from assms e c have tail: "(if rowcount c \<noteq> 0
                   then then_do (lift (fetch_first c))
                          (\<lambda>v. then_do (lift (py_int v)) (\<lambda>n. ret (Some n)))
                   else ret None) w2 = (Inr qc, w1)"
    by (auto simp: quick_count_def then_do_def Let_def split: prod.splits)
  then have w: "w1 = w2"
    by (auto simp: then_do_def lift_def ret_def split: if_splits sum.splits)
  from tail have q: "(rowcount c = 0 \<and> qc = None)
              \<or> (rowcount c \<noteq> 0 \<and> (\<exists>v n. fetch_first c = Inr v \<and> py_int v = Inr n \<and> qc = Some n))"
    by (auto simp: then_do_def lift_def ret_def split: if_splits sum.splits)
  from execute_commit_state[OF e[unfolded c]] w q show ?thesis by blast
qed

lemma with_extras_grows:
  "with_extras db rec ecols D w = (r, w') \<Longrightarrow> \<exists>new. issued (cn w') = issued (cn w) @ new"
  by (auto simp: with_extras_def then_do_def lift_def raise_def ret_def
           split: option.splits sum.splits prod.splits list.splits dest: execute_issued)

lemma project_dict_same: "project_dict p D w = (r, w') \<Longrightarrow> w' = w"
  by (auto simp: project_dict_def raise_def ret_def split: projection.splits option.splits)

lemma yield_row_grows:
  "yield_row db rec sc ec off p w = (r, w') \<Longrightarrow> \<exists>new. issued (cn w') = issued (cn w) @ new"
  by (auto simp: yield_row_def then_do_def lift_def ret_def
           split: if_splits sum.splits prod.splits
           dest: with_extras_grows project_dict_same)

lemma yield_row_noextras:
  "yield_row db rec sc [] off p w = (r, w') \<Longrightarrow> w' = w"
  by (auto simp: yield_row_def then_do_def lift_def ret_def
           split: if_splits sum.splits prod.splits
           dest: project_dict_same)

lemma search_iterator_grows:
  "search_iterator db recs sc ec off p w = (r, w') \<Longrightarrow> \<exists>new. issued (cn w') = issued (cn w) @ new"
proof (induction recs arbitrary: w r w')
  case Nil
  then show ?case by (simp add: ret_def)
next
  case (Cons a recs)
  obtain r1 w1 where y: "yield_row db a sc ec off p w = (r1, w1)" by (cases "yield_row db a sc ec off p w")
  from yield_row_grows[OF y] obtain n1 where n1: "issued (cn w1) = issued (cn w) @ n1" by blast
  show ?case
  proof (cases r1)
    case (Inl e)
    with Cons.prems y have "w' = w1" by (simp add: then_do_def)
    with n1 show ?thesis by blast
  next
    case (Inr x)
    obtain r2 w2 where s: "search_iterator db recs sc ec off p w1 = (r2, w2)"
      by (cases "search_iterator db recs sc ec off p w1")
    from Cons.IH[OF s] obtain n2 where n2: "issued (cn w2) = issued (cn w1) @ n2" by blast
    from Cons.prems y Inr s have "w' = w2"
      by (auto simp: then_do_def ret_def split: sum.splits)
    with n1 n2 show ?thesis by simp
  qed
qed

lemma search_iterator_noextras:
  "search_iterator db recs sc [] off p w = (r, w') \<Longrightarrow> w' = w"
proof (induction recs arbitrary: w r w')
  case Nil
  then show ?case by (simp add: ret_def)
next
  case (Cons a recs)
  obtain r1 w1 where y: "yield_row db a sc [] off p w = (r1, w1)" by (cases "yield_row db a sc [] off p w")
  from yield_row_noextras[OF y] have w1: "w1 = w" .
  show ?case
  proof (cases r1)
    case (Inl e)
    with Cons.prems y w1 show ?thesis by (simp add: then_do_def)
  next
    case (Inr x)
    obtain r2 w2 where s: "search_iterator db recs sc [] off p w1 = (r2, w2)"
      by (cases "search_iterator db recs sc [] off p w1")
    from Cons.IH[OF s] have "w2 = w1" .
    moreover from Cons.prems y Inr s have "w' = w2"
      by (auto simp: then_do_def ret_def split: sum.splits)
    ultimately show ?thesis using w1 by simp
  qed
qed

text \<open>
  Claim C4. Take a \<^verbatim>\<open>search\<close> with a limit (not negative) that returns. It has resolved
  the projection, and the first statement it sent is the lookup of the query's count in
  the counts table, by the sorted columns and values of the query; the cached count is
  what the engine answers to it: none when no row comes back, else the integer of the
  first one. The second statement is the select over the search table, whose text ends
  with \<^verbatim>\<open>LIMIT %s\<close> (followed by \<^verbatim>\<open>OFFSET %s\<close> for an offset other than 0) after the
  \<^verbatim>\<open>WHERE\<close> clause of the translated query and the sort order, and whose parameters are
  those of the query, then \<^verbatim>\<open>max(limit, count_cutoff - offset)\<close> when there was no cached
  count (\<^verbatim>\<open>limit\<close> itself when there was one), then the offset if it is not 0. After it
  come only the lookups of extras rows, none when the projection holds no extras column.
  When the caller passed an \<^verbatim>\<open>info\<close> dictionary, then without a cached count
  \<^verbatim>\<open>exact_count\<close> is reported true exactly when the row count of the select's cursor is
  below that limit, and the number reported is the offset plus the row count; with a
  cached count \<^verbatim>\<open>exact_count\<close> is true and the number is the cached count. At most
  \<^verbatim>\<open>limit\<close> values are returned.
\<close>

theorem search_count_report:
  assumes run: "search db query p (Some limit) offset sorting info w = (Inr (res, info'), w')"
    and lim: "0 \<le> limit"
  shows "\<exists>sc ec off lookup c qc w1 r otext qstr vals cur rest.
           parse_projection (tbl w) p = Inr (sc, ec, off)
         \<and> lookup = Execute (fmt ''SELECT count FROM '' (Identifier (counts_table (tbl w)))
                                 '' WHERE cols = %s AND values = %s'')
                            [Val (fst (split_dict query)), Val (snd (split_dict query))]
         \<and> db (committed (cn w) @ pending (cn w)) lookup = Inr c
         \<and> (rowcount c = 0 \<and> qc = None
            \<or> rowcount c \<noteq> 0 \<and> (\<exists>v n. fetch_first c = Inr v \<and> py_int v = Inr n \<and> qc = Some n))
         \<and> quick_count db query w = (Inr qc, w1)
         \<and> build_query (tbl w) query
               (Some (if qc = None then max limit (count_cutoff (tbl w) - offset) else limit))
               offset sorting = Inr (qstr, vals)
         \<and> parse_dict (tbl w) (PDict query) NoCol = Inr r
         \<and> as_string qstr
             = (case r of None \<Rightarrow> [] | Some (wq, wv) \<Rightarrow> '' WHERE '' @ as_string wq)
               @ otext @ '' LIMIT %s'' @ (if offset \<noteq> 0 then '' OFFSET %s'' else [])
         \<and> vals
             = (case r of None \<Rightarrow> [] | Some (wq, wv) \<Rightarrow> wv)
               @ Val (PInt (if qc = None then max limit (count_cutoff (tbl w) - offset) else limit))
               # (if offset \<noteq> 0 then [Val (PInt offset)] else [])
         \<and> db (committed (cn w) @ pending (cn w) @ [lookup])
               (Execute (select_stmt (tbl w) sc qstr) vals) = Inr cur
         \<and> issued (cn w') = issued (cn w) @ lookup # Execute (select_stmt (tbl w) sc qstr) vals # rest
         \<and> (ec = [] \<longrightarrow> rest = [])
         \<and> (case info of
               None \<Rightarrow> info' = None
             | Some i \<Rightarrow>
                 (\<exists>i'. info' = Some i'
                    \<and> map_of i' ''exact_count''
                        = Some (PBool (case qc of
                                         None \<Rightarrow> rowcount cur < max limit (count_cutoff (tbl w) - offset)
                                       | Some n \<Rightarrow> True))
                    \<and> map_of i' ''number''
                        = Some (PInt (case qc of None \<Rightarrow> offset + rowcount cur | Some n \<Rightarrow> n))))
         \<and> length res \<le> nat limit"
proof -
  define t where "t = tbl w"
  define lookup where "lookup = Execute (fmt ''SELECT count FROM '' (Identifier (counts_table (tbl w)))
                                 '' WHERE cols = %s AND values = %s'')
                            [Val (fst (split_dict query)), Val (snd (split_dict query))]"
  obtain sc ec off where pp: "parse_projection t p = Inr (sc, ec, off)"
    using run unfolding t_def
    by (cases "parse_projection (tbl w) p") (auto simp: search_def then_do_def lift_def)
  obtain rq w1 where q: "quick_count db query w = (rq, w1)"
    by (cases "quick_count db query w")
  obtain qc where qc: "rq = Inr qc"
    using run pp q unfolding t_def
    by (cases rq) (auto simp: search_def then_do_def lift_def)
  from quick_count_trace[OF q[unfolded qc]] obtain c where
    c: "db (committed (cn w) @ pending (cn w)) lookup = Inr c"
    and cq: "rowcount c = 0 \<and> qc = None
            \<or> rowcount c \<noteq> 0 \<and> (\<exists>v n. fetch_first c = Inr v \<and> py_int v = Inr n \<and> qc = Some n)"
    and i1: "issued (cn w1) = issued (cn w) @ [lookup]"
    and c1: "committed (cn w1) = committed (cn w) @ pending (cn w) @ [lookup]"
    and p1: "pending (cn w1) = []"
    unfolding lookup_def by blast
  define L where "L = (if qc = None then max limit (count_cutoff t - offset) else limit)"
  define exact where "exact = (\<lambda>cur::cursor. case qc of None \<Rightarrow> rowcount cur < max limit (count_cutoff t - offset)
                                           | Some n \<Rightarrow> True)"
  define number where "number = (\<lambda>cur::cursor. case qc of None \<Rightarrow> offset + rowcount cur | Some n \<Rightarrow> n)"
  obtain qstr vals where bq: "build_query t query (Some L) offset sorting = Inr (qstr, vals)"
    using run pp q qc unfolding t_def L_def
    by (cases "build_query (tbl w) query
                 (Some (if qc = None then max limit (count_cutoff (tbl w) - offset) else limit))
                 offset sorting")
       (auto simp: search_def then_do_def lift_def Let_def)
  from build_query_text[OF bq] obtain r otext where
    pd: "parse_dict t (PDict query) NoCol = Inr r"
    and qtext: "as_string qstr = (case r of None \<Rightarrow> [] | Some (wq, wv) \<Rightarrow> '' WHERE '' @ as_string wq)
          @ otext @ '' LIMIT %s'' @ (if offset \<noteq> 0 then '' OFFSET %s'' else [])"
    and vs: "vals = (case r of None \<Rightarrow> [] | Some (wq, wv) \<Rightarrow> wv)
          @ Val (PInt L) # (if offset \<noteq> 0 then [Val (PInt offset)] else [])"
    by blast
  obtain re w2 where ex: "execute db (select_stmt t sc qstr) vals True w1 = (re, w2)"
    by (cases "execute db (select_stmt t sc qstr) vals True w1")
  have step: "search db query p (Some limit) offset sorting info w =
      (case re of
         Inl e \<Rightarrow> (Inl e, w2)
       | Inr cur \<Rightarrow>
           then_do (search_iterator db (fetchmany cur limit) sc ec off p)
             (\<lambda>res. case info of
                      None \<Rightarrow> ret (res, None)
                    | Some i \<Rightarrow>
                        then_do (lift (info_update query (number cur) limit offset (exact cur) i))
                          (\<lambda>i'. ret (res, Some i'))) w2)"
    using pp q qc bq ex unfolding t_def L_def exact_def number_def
    by (simp add: search_def then_do_def lift_def Let_def split: sum.splits)
  obtain cur where cur: "re = Inr cur"
    using run step by (cases re) auto
  from execute_commit_state[OF ex[unfolded cur]] c1 p1 i1
  have dbv: "db (committed (cn w) @ pending (cn w) @ [lookup]) (Execute (select_stmt t sc qstr) vals) = Inr cur"
    and i2: "issued (cn w2) = issued (cn w) @ [lookup, Execute (select_stmt t sc qstr) vals]"
    by simp_all
  obtain ri w3 where it: "search_iterator db (fetchmany cur limit) sc ec off p w2 = (ri, w3)"
    by (cases "search_iterator db (fetchmany cur limit) sc ec off p w2")
  obtain res0 where res0: "ri = Inr res0"
    using run step cur it by (cases ri) (auto simp: then_do_def)
  have tail: "(case info of
                 None \<Rightarrow> ret (res0, None)
               | Some i \<Rightarrow>
                   then_do (lift (info_update query (number cur) limit offset (exact cur) i))
                     (\<lambda>i'. ret (res0, Some i'))) w3 = (Inr (res, info'), w')"
    using run step cur it res0 by (simp add: then_do_def)
  have out: "res = res0" "w' = w3"
    using tail by (cases info; auto simp: then_do_def lift_def ret_def split: sum.splits)+
  from search_iterator_grows[OF it] obtain rest where rest: "issued (cn w3) = issued (cn w2) @ rest"
    by blast
  have noex: "ec = [] \<longrightarrow> rest = []"
    using search_iterator_noextras[of db "fetchmany cur limit" sc off p w2 ri w3] it rest by auto
  have tr: "issued (cn w') = issued (cn w) @ lookup # Execute (select_stmt t sc qstr) vals # rest"
    using out(2) rest i2 by simp
  have inf: "case info of
               None \<Rightarrow> info' = None
             | Some i \<Rightarrow>
                 (\<exists>i'. info' = Some i'
                    \<and> map_of i' ''exact_count'' = Some (PBool (exact cur))
                    \<and> map_of i' ''number'' = Some (PInt (number cur)))"
  proof (cases info)
    case None
    with tail show ?thesis by (simp add: ret_def)
  next
    case (Some i)
    with tail obtain i' where "info_update query (number cur) limit offset (exact cur) i = Inr i'"
      and "info' = Some i'"
      by (auto simp: then_do_def lift_def ret_def split: sum.splits)
    with info_update_reads Some show ?thesis by auto
  qed
  have len: "length res \<le> nat limit"
    using search_iterator_length[of db "fetchmany cur limit" sc ec off p w2 res0 w3]
      it res0 out(1) fetchmany_length[OF lim, of cur] by simp
  show ?thesis
    using pp lookup_def c cq q[unfolded qc] bq pd qtext vs dbv tr noex inf len
    unfolding t_def L_def exact_def number_def by blast
qed

lemma ex_search:
  "fst (search db_labels q_degree Proj0 (Some 1) 0 None (Some []) (world0 nf_fields))
     = Inr ([PStr ''2.2.5.1''], Some info_degree)"
  "issued (cn (snd (search db_labels q_degree Proj0 (Some 1) 0 None (Some []) (world0 nf_fields))))
     = [lookup_stmt, select_degree]"
  by code_simp+

theorem search_count_report_witness:
  "(0::int) \<le> 1
   \<and> fst (search db_labels q_degree Proj0 (Some 1) 0 None (Some []) (world0 nf_fields))
       = Inr ([PStr ''2.2.5.1''], Some info_degree)
   \<and> issued (cn (snd (search db_labels q_degree Proj0 (Some 1) 0 None (Some []) (world0 nf_fields))))
       = [lookup_stmt, select_degree]
   \<and> map_of info_degree ''exact_count'' = Some (PBool True)
   \<and> map_of info_degree ''number'' = Some (PInt 2)
   \<and> length [PStr ''2.2.5.1''] \<le> nat 1"
proof -
  have lim: "(0::int) \<le> 1" by simp
  have run: "search db_labels q_degree Proj0 (Some 1) 0 None (Some []) (world0 nf_fields)
      = (Inr ([PStr ''2.2.5.1''], Some info_degree),
         snd (search db_labels q_degree Proj0 (Some 1) 0 None (Some []) (world0 nf_fields)))"
    using ex_search(1) by (simp add: prod_eq_iff)
  from search_count_report[OF run lim] ex_search show ?thesis
    by (simp add: info_degree_def)
qed

subsection \<open>Re-sorting\<close>

text \<open>
  Claim C9. On an id-ordered table that is not out of order, \<^verbatim>\<open>resort()\<close> with its default
  arguments returns at once: no statement is handed to the driver, and the table object
  and the connection are as they were.
\<close>

theorem resort_sorted_noop:
  "id_ordered (tbl w) \<Longrightarrow> \<not> out_of_order (tbl w) \<Longrightarrow> resort db None None do_commit w = (Inr (), w)"
  by (simp add: resort_def ret_def)

theorem resort_sorted_noop_witness:
  "id_ordered (tbl (world0 nf_fields)) \<and> \<not> out_of_order (tbl (world0 nf_fields))
   \<and> resort db_counting None None True (world0 nf_fields) = (Inr (), world0 nf_fields)"
proof -
  have h1: "id_ordered (tbl (world0 nf_fields))" by (simp add: world0_def nf_fields_def)
  have h2: "\<not> out_of_order (tbl (world0 nf_fields))" by (simp add: world0_def nf_fields_def)
  from resort_sorted_noop[OF h1 h2] h1 h2 show ?thesis by simp
qed

subsection \<open>Reloading\<close>

lemma send_frame:
  "send db st w = (r, w') \<Longrightarrow>
   committed (cn w') = committed (cn w) \<and> tbl w' = tbl w \<and> issued (cn w') = issued (cn w) @ [st]"
  by (auto simp: send_def Let_def split: sum.splits)

lemma execute_nocommit_frame:
  "execute db q vals False w = (r, w') \<Longrightarrow>
   committed (cn w') = committed (cn w) \<and> tbl w' = tbl w \<and> issued (cn w') = issued (cn w) @ [Execute q vals]"
  by (auto simp: execute_def rollback_def split: prod.splits sum.splits if_splits dest: send_frame)

lemma clone_frame:
  "clone db table tmp False w = (r, w') \<Longrightarrow>
   committed (cn w') = committed (cn w) \<and> tbl w' = tbl w
   \<and> (\<exists>st. issued (cn w') = issued (cn w) @ [st] \<and> is_staging st)"
proof -
  assume h: "clone db table tmp False w = (r, w')"
  let ?q = "Composed [SQL ''CREATE TABLE '', Identifier tmp, SQL '' (LIKE '', Identifier table, SQL '')'']"
  obtain r0 where e: "execute db ?q [] False w = (r0, w')"
    using h by (auto simp: clone_def then_do_def ret_def split: prod.splits sum.splits)
  have "is_staging (Execute ?q [])" by (simp add: is_staging_def is_prefix_def)
  with execute_nocommit_frame[OF e] show ?thesis by blast
qed

lemma copy_from_frame:
  "copy_from db fs f table cols n ids kwds w = (r, w') \<Longrightarrow>
   committed (cn w') = committed (cn w) \<and> tbl w' = tbl w
   \<and> (\<exists>new. issued (cn w') = issued (cn w) @ new \<and> list_all is_staging new)"
proof -
  assume h: "copy_from db fs f table cols n ids kwds w = (r, w')"
  have s: "\<And>st r1 w1. send db st w = (r1, w1) \<Longrightarrow> (\<exists>l t c k. st = CopyFrom l t c k) \<Longrightarrow>
     committed (cn (snd (rollback w1))) = committed (cn w) \<and> tbl (snd (rollback w1)) = tbl w
     \<and> issued (cn (snd (rollback w1))) = issued (cn w) @ [st]
     \<and> committed (cn w1) = committed (cn w) \<and> tbl w1 = tbl w
     \<and> issued (cn w1) = issued (cn w) @ [st] \<and> is_staging st"
    by (auto simp: rollback_def is_staging_def dest: send_frame)
  show ?thesis
    using h
    apply (simp add: copy_from_def Let_def raise_def split: option.splits sum.splits prod.splits)
    apply (elim disjE conjE exE)
    by (force dest!: s)+
qed

lemma stage_frame:
  "stage db fs ids kwds srcs tables counts w = (r, w') \<Longrightarrow>
   committed (cn w') = committed (cn w) \<and> tbl w' = tbl w
   \<and> (\<exists>new. issued (cn w') = issued (cn w) @ new \<and> list_all is_staging new)"
proof (induction srcs arbitrary: tables counts w)
  case Nil
  then show ?case by (simp add: ret_def)
next
  case (Cons src srcs)
  obtain table cols addid filename where src: "src = (table, cols, addid, filename)"
    by (cases src)
  show ?case
  proof (cases filename)
    case None
    with Cons src show ?thesis by simp
  next
    case (Some f)
    obtain r1 w1 where c: "clone db table (table @ ''_tmp'') False w = (r1, w1)"
      by (cases "clone db table (table @ ''_tmp'') False w")
    note f1 = clone_frame[OF c]
    show ?thesis
    proof (cases r1)
      case (Inl e)
      with Cons.prems src Some c f1 show ?thesis
        by (auto simp: then_do_def)
    next
      case (Inr u)
      obtain r2 w2 where cp: "copy_from db fs f (table @ ''_tmp'') (if addid then ''id'' # cols else cols)
                                0 ids kwds w1 = (r2, w2)"
        by (cases "copy_from db fs f (table @ ''_tmp'') (if addid then ''id'' # cols else cols) 0 ids kwds w1")
      note f2 = copy_from_frame[OF cp]
      show ?thesis
      proof (cases r2)
        case (Inl e)
        with Cons.prems src Some c Inr cp have "w' = w2" by (simp add: then_do_def)
        with f1 f2 show ?thesis by auto
      next
        case (Inr n)
        with Cons.prems src Some c \<open>r1 = Inr u\<close> cp
        have "stage db fs ids kwds srcs (tables @ [table]) (count_set table n counts) w2 = (r, w')"
          by (simp add: then_do_def)
        from Cons.IH[OF this] f1 f2 show ?thesis by auto
      qed
    qed
  qed
qed

text \<open>
  Claim C5. When a reload is given a search file and an extras file, its arguments pass
  \<^verbatim>\<open>_check_file_input\<close>, the staging loop has loaded the files, and the row count
  recorded for the search table differs from the one recorded for the extras table,
  then \<^verbatim>\<open>reload\<close> raises the mismatch error and its open transaction is rolled back.
  Up to that point nothing was committed, the table object is unchanged, and every
  statement handed to the driver was a clone or a copy into a \<^verbatim>\<open>_tmp\<close> table: neither
  the re-sort, nor the primary keys, the indexes, the statistics or the swap were reached,
  whatever the later phases are.
\<close>

theorem reload_mismatch:
  assumes chk: "check_file_input (tbl w) searchfile (Some extrafile) kwds = Inr ()"
    and st: "stage db fs includes_ids kwds
               (reload_sources (tbl w) searchfile (Some extrafile) countsfile statsfile) [] [] w
             = (Inr (tables, counts), w1)"
    and ne: "map_of counts (search_table (tbl w))
             \<noteq> (case extra_table (tbl w) of None \<Rightarrow> None | Some e \<Rightarrow> map_of counts e)"
  shows "reload db fs ph searchfile (Some extrafile) countsfile statsfile includes_ids
             resort_arg reindex restat_arg kwds w
           = (Inl (RuntimeError ''Different number of rows in searchfile and extrafile''),
              w1\<lparr>cn := (cn w1)\<lparr>pending := []\<rparr>\<rparr>)
       \<and> committed (cn w1) = committed (cn w) \<and> tbl w1 = tbl w
       \<and> (\<exists>new. issued (cn w1) = issued (cn w) @ new \<and> list_all is_staging new)"
proof -
  have "reload db fs ph searchfile (Some extrafile) countsfile statsfile includes_ids
             resort_arg reindex restat_arg kwds w
           = (Inl (RuntimeError ''Different number of rows in searchfile and extrafile''),
              w1\<lparr>cn := (cn w1)\<lparr>pending := []\<rparr>\<rparr>)"
    using chk st ne
    by (simp add: reload_def Let_def then_do_def lift_def rollback_def raise_def)
  with stage_frame[OF st] show ?thesis by blast
qed

lemma ex_stage:
  "fst (stage db_copy fs_scenario True []
         (reload_sources (tbl (world0 nf_fields)) (Some ''search.txt'') (Some ''extras.txt'') None None)
         [] [] (world0 nf_fields))
     = Inr ([''nf_fields'', ''nf_fields_extras''], [(''nf_fields'', 100), (''nf_fields_extras'', 99)])"
  by code_simp

theorem reload_mismatch_witness:
  "fst (reload db_copy fs_scenario no_phases (Some ''search.txt'') (Some ''extras.txt'') None None
          True None True None [] (world0 nf_fields))
     = Inl (RuntimeError ''Different number of rows in searchfile and extrafile'')
   \<and> committed (cn (snd (reload db_copy fs_scenario no_phases (Some ''search.txt'') (Some ''extras.txt'')
                          None None True None True None [] (world0 nf_fields)))) = []
   \<and> pending (cn (snd (reload db_copy fs_scenario no_phases (Some ''search.txt'') (Some ''extras.txt'')
                          None None True None True None [] (world0 nf_fields)))) = []"
proof -
  let ?w1 = "snd (stage db_copy fs_scenario True []
         (reload_sources (tbl (world0 nf_fields)) (Some ''search.txt'') (Some ''extras.txt'') None None)
         [] [] (world0 nf_fields))"
  let ?counts = "[(''nf_fields'', 100), (''nf_fields_extras'', 99 :: int)]"
  have chk: "check_file_input (tbl (world0 nf_fields)) (Some ''search.txt'') (Some ''extras.txt'') [] = Inr ()"
    by code_simp
  have st: "stage db_copy fs_scenario True []
         (reload_sources (tbl (world0 nf_fields)) (Some ''search.txt'') (Some ''extras.txt'') None None)
         [] [] (world0 nf_fields) = (Inr ([''nf_fields'', ''nf_fields_extras''], ?counts), ?w1)"
    using ex_stage by (simp add: prod_eq_iff)
  have ne: "map_of ?counts (search_table (tbl (world0 nf_fields)))
             \<noteq> (case extra_table (tbl (world0 nf_fields)) of None \<Rightarrow> None | Some e \<Rightarrow> map_of ?counts e)"
    by (simp add: world0_def nf_fields_def)
  have c0: "committed (cn (world0 nf_fields)) = []" by (simp add: world0_def)
  from reload_mismatch[OF chk st ne, of no_phases None True None] c0 show ?thesis
    by simp
qed

subsection \<open>Upsert\<close>























lemma ex_upsert_one:
  "fst (upsert (db_matches 1) q_label data_degree (world0 nf_fields)) = Inr ()"
  "issued (cn (snd (upsert (db_matches 1) q_label data_degree (world0 nf_fields))))
     = [Execute (upsert_select nf_fields label_test) [Val (PStr ''2.2.5.1'')],
        Execute (update_stmt ''nf_fields'' [(''degree'', PInt 2)]) [Val (PInt 2), Val (PInt 17)],
        Execute (update_stmt ''nf_fields_extras'' [(''reg'', PInt 1)]) [Val (PInt 1), Val (PInt 17)],
        order_flag nf_fields, stats_flag nf_fields]"
  by code_simp+





end
